theory Spec2Isabelle
  imports Main "HOL-Library.Word"
begin

section \<open>The values and the environment of a PyTeal program\<close>

text \<open>
  \<^verbatim>\<open>decentralized_marketplace_asc1.py\<close> builds one PyTeal expression, the approval
  program of the marketplace application. The expression is evaluated once for every
  application call, against the application's global key-value store and the transaction
  group the call belongs to. The embedding below gives every PyTeal constructor the
  source uses its meaning as a function of that environment.

  A value is an unsigned 64-bit integer or a byte string. Isabelle's \<open>char\<close> is a byte,
  so a byte string is a \<open>string\<close>. An account address is a byte string of exactly
  32 bytes.
\<close>

datatype tealval = VUint "64 word" | VBytes string

typedef address = "{s :: string. length s = 32}"
  morphisms bytes_of Address
  by (rule exI [of _ "replicate 32 (CHR 0x00)"]) simp

setup_lifting type_definition_address

instantiation address :: equal
begin

lift_definition equal_address :: "address \<Rightarrow> address \<Rightarrow> bool" is "(=)" .

instance
  by standard (transfer, simp)

end

text \<open>
  Evaluation stops with an error (the whole transaction group fails, nothing is
  written) when an operation is applied outside its domain. The errors the source can
  reach:
  \<^item> \<open>TypeMismatch\<close>: \<^verbatim>\<open>==\<close>, \<^verbatim>\<open>!=\<close> on an integer and a byte string, or a logical or
    integer operation on a byte string;
  \<^item> \<open>IndexOutOfRange\<close>: \<^verbatim>\<open>Gtxn[i]\<close> with \<open>i\<close> not below the group size, or
    \<^verbatim>\<open>Txn.application_args[i]\<close> with \<open>i\<close> not below the number of arguments;
  \<^item> \<open>BtoiTooLong\<close>: \<^verbatim>\<open>Btoi\<close> of more than 8 bytes;
  \<^item> \<open>AssertFailed\<close>: \<^verbatim>\<open>Assert\<close> of zero;
  \<^item> \<open>KeyTooLong\<close>, \<open>ValueTooLong\<close>: \<^verbatim>\<open>App.globalPut\<close> of a key or of a byte string over
    the size limits of the store;
  \<^item> \<open>NoCondMatched\<close>: a \<^verbatim>\<open>Cond\<close> none of whose conditions holds;
  \<^item> \<open>NoReturn\<close>: a program that ends without \<^verbatim>\<open>Return\<close>;
  \<^item> \<open>MalformedExpr\<close>: \<^verbatim>\<open>And\<close> or \<^verbatim>\<open>Or\<close> without an operand (PyTeal refuses to
    build it).
\<close>

datatype error =
  TypeMismatch | IndexOutOfRange | BtoiTooLong | AssertFailed | KeyTooLong | ValueTooLong
  | NoCondMatched | NoReturn | MalformedExpr

text \<open>
  A transaction record, with the fields the program reads. A field that does not apply
  to the record's type holds its zero value, so every record has every field. The
  sender and the receivers are addresses; the program reads them as their 32 bytes.
\<close>

record txn =
  type_enum :: "64 word"
  sender :: address
  receiver :: address
  amount :: "64 word"
  asset_receiver :: address
  xfer_asset :: "64 word"
  asset_amount :: "64 word"
  application_id :: "64 word"
  application_args :: "string list"

text \<open>
  The environment of one evaluation: \<open>Txn\<close> is the application call being evaluated,
  \<open>Gtxn\<close> the whole group it belongs to, in order.
\<close>

record ctx =
  Txn :: txn
  Gtxn :: "txn list"

text \<open>The global store of the application: byte-string keys, absent until first put.\<close>

type_synonym gstate = "string \<rightharpoonup> tealval"

type_synonym expr = "ctx \<Rightarrow> gstate \<Rightarrow> error + tealval"

text \<open>
  A statement either falls through to the next one with the store it leaves, or halts
  the program with a return value.
\<close>

datatype flow = Next gstate | Halt "64 word" gstate

type_synonym stmt = "ctx \<Rightarrow> gstate \<Rightarrow> error + flow"

subsection \<open>Expressions\<close>

definition Int' :: "64 word \<Rightarrow> expr" where
  "Int' n = (\<lambda>c g. Inr (VUint n))"

definition Bytes :: "string \<Rightarrow> expr" where
  "Bytes s = (\<lambda>c g. Inr (VBytes s))"

text \<open>The constants of PyTeal's \<^verbatim>\<open>TxnType\<close> the source names.\<close>

definition TxnType_Payment :: expr where
  "TxnType_Payment = Int' 1"

definition TxnType_AssetTransfer :: expr where
  "TxnType_AssetTransfer = Int' 4"

text \<open>Both operands are evaluated, left first; the comparison needs equal types.\<close>

fun teal_eq :: "tealval \<Rightarrow> tealval \<Rightarrow> error + tealval" where
  "teal_eq (VUint m) (VUint n) = Inr (VUint (if m = n then 1 else 0))"
| "teal_eq (VBytes s) (VBytes t) = Inr (VUint (if s = t then 1 else 0))"
| "teal_eq _ _ = Inl TypeMismatch"

fun teal_neq :: "tealval \<Rightarrow> tealval \<Rightarrow> error + tealval" where
  "teal_neq (VUint m) (VUint n) = Inr (VUint (if m = n then 0 else 1))"
| "teal_neq (VBytes s) (VBytes t) = Inr (VUint (if s = t then 0 else 1))"
| "teal_neq _ _ = Inl TypeMismatch"

fun teal_and :: "tealval \<Rightarrow> tealval \<Rightarrow> error + tealval" where
  "teal_and (VUint m) (VUint n) = Inr (VUint (if m \<noteq> 0 \<and> n \<noteq> 0 then 1 else 0))"
| "teal_and _ _ = Inl TypeMismatch"

fun teal_or :: "tealval \<Rightarrow> tealval \<Rightarrow> error + tealval" where
  "teal_or (VUint m) (VUint n) = Inr (VUint (if m \<noteq> 0 \<or> n \<noteq> 0 then 1 else 0))"
| "teal_or _ _ = Inl TypeMismatch"

definition binop :: "(tealval \<Rightarrow> tealval \<Rightarrow> error + tealval) \<Rightarrow> expr \<Rightarrow> expr \<Rightarrow> expr" where
  "binop f a b = (\<lambda>c g.
     case a c g of Inl e \<Rightarrow> Inl e
     | Inr x \<Rightarrow> (case b c g of Inl e \<Rightarrow> Inl e | Inr y \<Rightarrow> f x y))"

definition Eq :: "expr \<Rightarrow> expr \<Rightarrow> expr" where
  "Eq = binop teal_eq"

definition Neq :: "expr \<Rightarrow> expr \<Rightarrow> expr" where
  "Neq = binop teal_neq"

text \<open>
  \<^verbatim>\<open>And(a, b, c, ...)\<close> and \<^verbatim>\<open>Or(a, b, c, ...)\<close> compile to the operands followed by
  the binary opcode, folded from the left. Every operand is evaluated: there is no
  short circuit, so an operand that fails makes the whole expression fail, whatever
  the others evaluate to.
\<close>

fun And :: "expr list \<Rightarrow> expr" where
  "And [] = (\<lambda>c g. Inl MalformedExpr)"
| "And (a # as) = foldl (binop teal_and) a as"

fun Or :: "expr list \<Rightarrow> expr" where
  "Or [] = (\<lambda>c g. Inl MalformedExpr)"
| "Or (a # as) = foldl (binop teal_or) a as"

text \<open>\<^verbatim>\<open>Btoi\<close>: the big-endian value of at most 8 bytes.\<close>

definition be_value :: "string \<Rightarrow> 64 word" where
  "be_value bs = foldl (\<lambda>acc b. acc * 256 + of_char b) 0 bs"

definition Btoi :: "expr \<Rightarrow> expr" where
  "Btoi a = (\<lambda>c g.
     case a c g of Inl e \<Rightarrow> Inl e
     | Inr (VUint n) \<Rightarrow> Inl TypeMismatch
     | Inr (VBytes bs) \<Rightarrow> if length bs \<le> 8 then Inr (VUint (be_value bs)) else Inl BtoiTooLong)"

text \<open>The fields of the call being evaluated.\<close>

definition Txn_application_id :: expr where
  "Txn_application_id = (\<lambda>c g. Inr (VUint (application_id (Txn c))))"

definition Txn_sender :: expr where
  "Txn_sender = (\<lambda>c g. Inr (VBytes (bytes_of (sender (Txn c)))))"

definition Txn_application_args :: "nat \<Rightarrow> expr" where
  "Txn_application_args i = (\<lambda>c g.
     if i < length (application_args (Txn c))
     then Inr (VBytes (application_args (Txn c) ! i)) else Inl IndexOutOfRange)"

definition Txn_application_args_length :: expr where
  "Txn_application_args_length = (\<lambda>c g. Inr (VUint (of_nat (length (application_args (Txn c))))))"

definition Global_group_size :: expr where
  "Global_group_size = (\<lambda>c g. Inr (VUint (of_nat (length (Gtxn c)))))"

text \<open>The fields of the record at a fixed position of the group.\<close>

definition gtxn :: "nat \<Rightarrow> (txn \<Rightarrow> tealval) \<Rightarrow> expr" where
  "gtxn i f = (\<lambda>c g. if i < length (Gtxn c) then Inr (f (Gtxn c ! i)) else Inl IndexOutOfRange)"

definition Gtxn_type_enum :: "nat \<Rightarrow> expr" where
  "Gtxn_type_enum i = gtxn i (\<lambda>t. VUint (type_enum t))"

definition Gtxn_sender :: "nat \<Rightarrow> expr" where
  "Gtxn_sender i = gtxn i (\<lambda>t. VBytes (bytes_of (sender t)))"

definition Gtxn_receiver :: "nat \<Rightarrow> expr" where
  "Gtxn_receiver i = gtxn i (\<lambda>t. VBytes (bytes_of (receiver t)))"

definition Gtxn_amount :: "nat \<Rightarrow> expr" where
  "Gtxn_amount i = gtxn i (\<lambda>t. VUint (amount t))"

definition Gtxn_asset_receiver :: "nat \<Rightarrow> expr" where
  "Gtxn_asset_receiver i = gtxn i (\<lambda>t. VBytes (bytes_of (asset_receiver t)))"

definition Gtxn_xfer_asset :: "nat \<Rightarrow> expr" where
  "Gtxn_xfer_asset i = gtxn i (\<lambda>t. VUint (xfer_asset t))"

definition Gtxn_asset_amount :: "nat \<Rightarrow> expr" where
  "Gtxn_asset_amount i = gtxn i (\<lambda>t. VUint (asset_amount t))"

text \<open>
  \<^verbatim>\<open>App.globalGet(key)\<close> yields the integer 0 for a key that was never put.
  \<^verbatim>\<open>App.globalGetEx(Int(0), key)\<close> reads the store of the application itself (index 0;
  a record here carries no foreign applications, so no other index is in range) and
  keeps whether the key exists; \<^verbatim>\<open>hasValue()\<close> reads that flag.
\<close>

definition App_globalGet :: "string \<Rightarrow> expr" where
  "App_globalGet k = (\<lambda>c g. case g k of None \<Rightarrow> Inr (VUint 0) | Some v \<Rightarrow> Inr v)"

definition App_globalGetEx :: "64 word \<Rightarrow> string \<Rightarrow> ctx \<Rightarrow> gstate \<Rightarrow> error + tealval option" where
  "App_globalGetEx app k = (\<lambda>c g. if app = 0 then Inr (g k) else Inl IndexOutOfRange)"

definition hasValue :: "tealval option \<Rightarrow> expr" where
  "hasValue mv = (\<lambda>c g. Inr (VUint (case mv of None \<Rightarrow> 0 | Some v \<Rightarrow> 1)))"

subsection \<open>Statements\<close>

text \<open>
  \<^verbatim>\<open>App.globalPut(key, value)\<close> fails, and the evaluation with it, when the key or a
  byte-string value is over the size limits of the store. The limits are consensus
  parameters of the protocol, not part of the repository; the values are those of the
  protocol in force: a key of at most 64 bytes, a byte string of at most 128 bytes, and
  key and byte string together of at most 128 bytes. An integer value has no limit of
  its own.
\<close>

definition MaxAppKeyLen :: nat where
  "MaxAppKeyLen = 64"

definition MaxAppBytesValueLen :: nat where
  "MaxAppBytesValueLen = 128"

definition MaxAppSumKeyValueLens :: nat where
  "MaxAppSumKeyValueLens = 128"

fun put_error :: "string \<Rightarrow> tealval \<Rightarrow> error option" where
  "put_error k (VUint n) = (if MaxAppKeyLen < length k then Some KeyTooLong else None)"
| "put_error k (VBytes s) =
     (if MaxAppKeyLen < length k then Some KeyTooLong
      else if MaxAppBytesValueLen < length s then Some ValueTooLong
      else if MaxAppSumKeyValueLens < length k + length s then Some ValueTooLong
      else None)"

definition App_globalPut :: "string \<Rightarrow> expr \<Rightarrow> stmt" where
  "App_globalPut k a = (\<lambda>c g.
     case a c g of Inl e \<Rightarrow> Inl e
     | Inr v \<Rightarrow> (case put_error k v of Some e \<Rightarrow> Inl e | None \<Rightarrow> Inr (Next (g(k \<mapsto> v)))))"

definition Return :: "expr \<Rightarrow> stmt" where
  "Return a = (\<lambda>c g.
     case a c g of Inl e \<Rightarrow> Inl e
     | Inr (VUint n) \<Rightarrow> Inr (Halt n g)
     | Inr (VBytes s) \<Rightarrow> Inl TypeMismatch)"

definition Assert :: "expr \<Rightarrow> stmt" where
  "Assert a = (\<lambda>c g.
     case a c g of Inl e \<Rightarrow> Inl e
     | Inr (VUint n) \<Rightarrow> if n = 0 then Inl AssertFailed else Inr (Next g)
     | Inr (VBytes s) \<Rightarrow> Inl TypeMismatch)"

fun Seq :: "stmt list \<Rightarrow> stmt" where
  "Seq [] = (\<lambda>c g. Inr (Next g))"
| "Seq (s # ss) = (\<lambda>c g.
     case s c g of Inl e \<Rightarrow> Inl e
     | Inr (Halt n g') \<Rightarrow> Inr (Halt n g')
     | Inr (Next g') \<Rightarrow> Seq ss c g')"

text \<open>\<^verbatim>\<open>If(cond).Then(a).Else(b)\<close>: only the chosen branch is evaluated.\<close>

definition If_Then_Else :: "expr \<Rightarrow> stmt \<Rightarrow> stmt \<Rightarrow> stmt" where
  "If_Then_Else b s1 s2 = (\<lambda>c g.
     case b c g of Inl e \<Rightarrow> Inl e
     | Inr (VUint n) \<Rightarrow> if n \<noteq> 0 then s1 c g else s2 c g
     | Inr (VBytes s) \<Rightarrow> Inl TypeMismatch)"

text \<open>
  \<^verbatim>\<open>Cond([c1, b1], [c2, b2], ...)\<close>: the conditions are evaluated in order and the body
  of the first that holds is run; with no condition left the program fails.
\<close>

fun Cond :: "(expr \<times> stmt) list \<Rightarrow> stmt" where
  "Cond [] = (\<lambda>c g. Inl NoCondMatched)"
| "Cond ((b, s) # rest) = (\<lambda>c g.
     case b c g of Inl e \<Rightarrow> Inl e
     | Inr (VUint n) \<Rightarrow> if n \<noteq> 0 then s c g else Cond rest c g
     | Inr (VBytes s) \<Rightarrow> Inl TypeMismatch)"

text \<open>
  A statement list that starts with a \<^verbatim>\<open>MaybeValue\<close>, as in
  \<^verbatim>\<open>Seq([escrow_address, If(... escrow_address.hasValue() ...)])\<close>: the lookup is done
  once, at that point, and the rest of the sequence refers to its result.
\<close>

definition Seq_MaybeValue ::
  "(ctx \<Rightarrow> gstate \<Rightarrow> error + tealval option) \<Rightarrow> (tealval option \<Rightarrow> stmt) \<Rightarrow> stmt" where
  "Seq_MaybeValue load rest = (\<lambda>c g.
     case load c g of Inl e \<Rightarrow> Inl e | Inr mv \<Rightarrow> rest mv c g)"

section \<open>The marketplace application\<close>

text \<open>The keys of the global store (class \<^verbatim>\<open>Variables\<close>).\<close>

definition Variables_escrow_address :: string where
  "Variables_escrow_address = ''ESCROW_ADDRESS''"

definition Variables_asa_id :: string where
  "Variables_asa_id = ''ASA_ID''"

definition Variables_asa_price :: string where
  "Variables_asa_price = ''ASA_PRICE''"

definition Variables_asa_owner :: string where
  "Variables_asa_owner = ''ASA_OWNER''"

definition Variables_app_state :: string where
  "Variables_app_state = ''APP_STATE''"

definition Variables_app_admin :: string where
  "Variables_app_admin = ''APP_ADMIN''"

text \<open>The method names (class \<^verbatim>\<open>AppMethods\<close>).\<close>

definition AppMethods_initialize_escrow :: string where
  "AppMethods_initialize_escrow = ''initializeEscrow''"

definition AppMethods_sell :: string where
  "AppMethods_sell = ''sell''"

definition AppMethods_buy :: string where
  "AppMethods_buy = ''buy''"

definition AppMethods_stop_selling :: string where
  "AppMethods_stop_selling = ''stopSelling''"

text \<open>The lifecycle states (class \<^verbatim>\<open>AppState\<close>).\<close>

definition AppState_not_initialized :: expr where
  "AppState_not_initialized = Int' 0"

definition AppState_active :: expr where
  "AppState_active = Int' 1"

definition AppState_selling_in_progress :: expr where
  "AppState_selling_in_progress = Int' 2"

subsection \<open>The handlers\<close>

definition app_initialization :: stmt where
  "app_initialization = Seq [
     Assert (Eq Txn_application_args_length (Int' 3)),
     App_globalPut Variables_app_state AppState_not_initialized,
     App_globalPut Variables_asa_id (Btoi (Txn_application_args 0)),
     App_globalPut Variables_asa_owner (Txn_application_args 1),
     App_globalPut Variables_app_admin (Txn_application_args 2),
     Return (Int' 1)]"

definition initialize_escrow :: stmt where
  "initialize_escrow =
    (let not_valid_number_of_transactions = Neq Global_group_size (Int' 1);
         escrow_address = App_globalGetEx 0 Variables_escrow_address;
         setup_escrow = Seq [
           App_globalPut Variables_escrow_address (Txn_application_args 1),
           App_globalPut Variables_app_state AppState_active,
           Return (Int' 1)];
         not_admin = Neq (App_globalGet Variables_app_admin) Txn_sender
     in Seq_MaybeValue escrow_address (\<lambda>escrow_address.
          If_Then_Else (Or [hasValue escrow_address,
                            not_admin,
                            not_valid_number_of_transactions])
            (Return (Int' 0))
            setup_escrow))"

definition sell :: stmt where
  "sell =
    (let valid_number_of_transactions = Eq Global_group_size (Int' 1);
         app_is_active = Or [Eq (App_globalGet Variables_app_state) AppState_active,
                             Eq (App_globalGet Variables_app_state) AppState_selling_in_progress];
         valid_seller = Eq Txn_sender (App_globalGet Variables_asa_owner);
         valid_number_of_arguments = Eq Txn_application_args_length (Int' 2);
         can_sell = And [valid_number_of_transactions,
                         app_is_active,
                         valid_seller,
                         valid_number_of_arguments];
         update_state = Seq [
           App_globalPut Variables_asa_price (Btoi (Txn_application_args 1)),
           App_globalPut Variables_app_state AppState_selling_in_progress,
           Return (Int' 1)]
     in If_Then_Else can_sell update_state (Return (Int' 0)))"

definition buy :: stmt where
  "buy =
    (let valid_number_of_transactions = Eq Global_group_size (Int' 3);
         asa_is_on_sale = Eq (App_globalGet Variables_app_state) AppState_selling_in_progress;
         valid_payment_to_seller = And [
           Eq (Gtxn_type_enum 1) TxnType_Payment,
           Eq (Gtxn_receiver 1) (App_globalGet Variables_asa_owner),
           Eq (Gtxn_amount 1) (App_globalGet Variables_asa_price),
           Eq (Gtxn_sender 1) (Gtxn_sender 0),
           Eq (Gtxn_sender 1) (Gtxn_asset_receiver 2)];
         valid_asa_transfer_from_escrow_to_buyer = And [
           Eq (Gtxn_type_enum 2) TxnType_AssetTransfer,
           Eq (Gtxn_sender 2) (App_globalGet Variables_escrow_address),
           Eq (Gtxn_xfer_asset 2) (App_globalGet Variables_asa_id),
           Eq (Gtxn_asset_amount 2) (Int' 1)];
         can_buy = And [valid_number_of_transactions,
                        asa_is_on_sale,
                        valid_payment_to_seller,
                        valid_asa_transfer_from_escrow_to_buyer];
         update_state = Seq [
           App_globalPut Variables_asa_owner (Gtxn_sender 0),
           App_globalPut Variables_app_state AppState_active,
           Return (Int' 1)]
     in If_Then_Else can_buy update_state (Return (Int' 0)))"

definition stop_selling :: stmt where
  "stop_selling =
    (let valid_number_of_transactions = Eq Global_group_size (Int' 1);
         valid_caller = Eq Txn_sender (App_globalGet Variables_asa_owner);
         app_is_initialized = Neq (App_globalGet Variables_app_state) AppState_not_initialized;
         can_stop_selling = And [valid_number_of_transactions,
                                 valid_caller,
                                 app_is_initialized];
         update_state = Seq [
           App_globalPut Variables_app_state AppState_active,
           Return (Int' 1)]
     in If_Then_Else can_stop_selling update_state (Return (Int' 0)))"

definition application_start :: stmt where
  "application_start = Cond [
     (Eq Txn_application_id (Int' 0), app_initialization),
     (Eq (Txn_application_args 0) (Bytes AppMethods_buy), buy),
     (Eq (Txn_application_args 0) (Bytes AppMethods_initialize_escrow), initialize_escrow),
     (Eq (Txn_application_args 0) (Bytes AppMethods_stop_selling), stop_selling),
     (Eq (Txn_application_args 0) (Bytes AppMethods_sell), sell)]"

definition approval_program :: stmt where
  "approval_program = application_start"

definition clear_program :: stmt where
  "clear_program = Return (Int' 1)"

subsection \<open>The effect of one evaluation on the store\<close>

text \<open>
  A program that returns a nonzero value approves the call and its writes are kept. A
  program that returns zero rejects the call, and one that fails aborts it; in both
  cases the group fails and the store stays as it was.

  \<open>Approved\<close> is the decision of the program. What the ledger checks around it is not
  part of the program and not of this embedding: fees and balances, and the kind of the
  call (\<^verbatim>\<open>OnCompletion\<close>), which the program never reads. The application is taken to be
  created with the schema the source declares (\<^verbatim>\<open>global_schema\<close>: 3 integers and 3 byte
  strings); the six keys of the program, with the types the program gives them, fit it.
\<close>

datatype outcome = Aborted error | Rejected | Approved

definition evaluate :: "stmt \<Rightarrow> ctx \<Rightarrow> gstate \<Rightarrow> outcome \<times> gstate" where
  "evaluate p c g =
     (case p c g of
        Inl e \<Rightarrow> (Aborted e, g)
      | Inr (Next g') \<Rightarrow> (Aborted NoReturn, g)
      | Inr (Halt n g') \<Rightarrow> if n = 0 then (Rejected, g) else (Approved, g'))"

text \<open>The store after a sequence of calls to the approval program, one after the other.\<close>

fun run_calls :: "gstate \<Rightarrow> ctx list \<Rightarrow> gstate" where
  "run_calls g [] = g"
| "run_calls g (c # cs) = run_calls (snd (evaluate approval_program c g)) cs"

section \<open>The listing record and the conditions of the actions\<close>

text \<open>
  What \<^verbatim>\<open>App.globalGet\<close> reads for a key: the value put there, or the integer 0.
\<close>

definition stored :: "gstate \<Rightarrow> string \<Rightarrow> tealval" where
  "stored g k = (case g k of None \<Rightarrow> VUint 0 | Some v \<Rightarrow> v)"

fun is_uint :: "tealval \<Rightarrow> bool" where
  "is_uint (VUint n) = True"
| "is_uint (VBytes s) = False"

fun is_bytes :: "tealval \<Rightarrow> bool" where
  "is_bytes (VUint n) = False"
| "is_bytes (VBytes s) = True"

text \<open>The three lifecycle states, as the integers the store holds.\<close>

abbreviation NotInitialized :: tealval where
  "NotInitialized \<equiv> VUint 0"

abbreviation Active :: tealval where
  "Active \<equiv> VUint 1"

abbreviation SellingInProgress :: tealval where
  "SellingInProgress \<equiv> VUint 2"

text \<open>
  The shape of every store the application can be in: owner and admin are byte
  strings, asset id and price read as integers, and the escrow address is absent
  exactly in the state \<open>NotInitialized\<close>, a byte string in the other two states.
  Creation on the empty store establishes it and every call keeps it (lemmas
  \<open>creation_listing_inv\<close>, \<open>call_listing_inv\<close> and \<open>reachable_listing_inv\<close>).
\<close>

definition listing_inv :: "gstate \<Rightarrow> bool" where
  "listing_inv g \<longleftrightarrow>
     is_bytes (stored g Variables_asa_owner) \<and>
     is_bytes (stored g Variables_app_admin) \<and>
     is_uint (stored g Variables_asa_id) \<and>
     is_uint (stored g Variables_asa_price) \<and>
     (case g Variables_escrow_address of
        None \<Rightarrow> stored g Variables_app_state = NotInitialized
      | Some e \<Rightarrow> is_bytes e \<and>
          (stored g Variables_app_state = Active \<or>
           stored g Variables_app_state = SellingInProgress))"

text \<open>
  The group size and the number of arguments are reported as 64-bit integers; a real
  group has at most 16 records and a call at most 16 arguments.
\<close>

definition counts_fit :: "ctx \<Rightarrow> bool" where
  "counts_fit c \<longleftrightarrow>
     length (Gtxn c) < 2 ^ 64 \<and> length (application_args (Txn c)) < 2 ^ 64"

text \<open>
  The conditions of each action, as the specification words them. They are stated
  over the group and the store directly, with no evaluation order and no failure.
\<close>

definition initialize_escrow_conditions :: "ctx \<Rightarrow> gstate \<Rightarrow> bool" where
  "initialize_escrow_conditions c g \<longleftrightarrow>
     length (Gtxn c) = 1 \<and>
     g Variables_escrow_address = None \<and>
     stored g Variables_app_admin = VBytes (bytes_of (sender (Txn c)))"

definition sell_conditions :: "ctx \<Rightarrow> gstate \<Rightarrow> bool" where
  "sell_conditions c g \<longleftrightarrow>
     length (Gtxn c) = 1 \<and>
     length (application_args (Txn c)) = 2 \<and>
     (stored g Variables_app_state = Active \<or>
      stored g Variables_app_state = SellingInProgress) \<and>
     stored g Variables_asa_owner = VBytes (bytes_of (sender (Txn c)))"

definition stop_selling_conditions :: "ctx \<Rightarrow> gstate \<Rightarrow> bool" where
  "stop_selling_conditions c g \<longleftrightarrow>
     length (Gtxn c) = 1 \<and>
     stored g Variables_asa_owner = VBytes (bytes_of (sender (Txn c))) \<and>
     stored g Variables_app_state \<noteq> NotInitialized"

definition payment_valid :: "ctx \<Rightarrow> gstate \<Rightarrow> bool" where
  "payment_valid c g \<longleftrightarrow>
     type_enum (Gtxn c ! 1) = 1 \<and>
     stored g Variables_asa_owner = VBytes (bytes_of (receiver (Gtxn c ! 1))) \<and>
     stored g Variables_asa_price = VUint (amount (Gtxn c ! 1)) \<and>
     sender (Gtxn c ! 1) = sender (Gtxn c ! 0) \<and>
     sender (Gtxn c ! 1) = asset_receiver (Gtxn c ! 2)"

definition asset_transfer_valid :: "ctx \<Rightarrow> gstate \<Rightarrow> bool" where
  "asset_transfer_valid c g \<longleftrightarrow>
     type_enum (Gtxn c ! 2) = 4 \<and>
     stored g Variables_escrow_address = VBytes (bytes_of (sender (Gtxn c ! 2))) \<and>
     stored g Variables_asa_id = VUint (xfer_asset (Gtxn c ! 2)) \<and>
     asset_amount (Gtxn c ! 2) = 1"

definition buy_conditions :: "ctx \<Rightarrow> gstate \<Rightarrow> bool" where
  "buy_conditions c g \<longleftrightarrow>
     length (Gtxn c) = 3 \<and>
     stored g Variables_app_state = SellingInProgress \<and>
     payment_valid c g \<and>
     asset_transfer_valid c g"

text \<open>A byte string that the store takes under a key.\<close>

definition storable :: "string \<Rightarrow> string \<Rightarrow> bool" where
  "storable k s \<longleftrightarrow> put_error k (VBytes s) = None"

text \<open>The stores after \<^verbatim>\<open>update_state\<close> of each action.\<close>

definition after_buy :: "ctx \<Rightarrow> gstate \<Rightarrow> gstate" where
  "after_buy c g = g(Variables_asa_owner \<mapsto> VBytes (bytes_of (sender (Gtxn c ! 0))),
                     Variables_app_state \<mapsto> Active)"

definition after_sell :: "ctx \<Rightarrow> gstate \<Rightarrow> gstate" where
  "after_sell c g = g(Variables_asa_price \<mapsto> VUint (be_value (application_args (Txn c) ! 1)),
                      Variables_app_state \<mapsto> SellingInProgress)"

definition after_initialize_escrow :: "ctx \<Rightarrow> gstate \<Rightarrow> gstate" where
  "after_initialize_escrow c g = g(Variables_escrow_address \<mapsto> VBytes (application_args (Txn c) ! 1),
                                   Variables_app_state \<mapsto> Active)"

definition after_creation :: "ctx \<Rightarrow> gstate \<Rightarrow> gstate" where
  "after_creation c g = g(Variables_app_state \<mapsto> NotInitialized,
                          Variables_asa_id \<mapsto> VUint (be_value (application_args (Txn c) ! 0)),
                          Variables_asa_owner \<mapsto> VBytes (application_args (Txn c) ! 1),
                          Variables_app_admin \<mapsto> VBytes (application_args (Txn c) ! 2))"

text \<open>
  The stores the application can reach: creation (application id 0) on the empty
  store, then any calls of the created application (application id not 0).
\<close>

inductive reachable :: "gstate \<Rightarrow> bool" where
  created: "application_id (Txn c) = 0 \<Longrightarrow>
            evaluate approval_program c Map.empty = (Approved, g) \<Longrightarrow> reachable g"
| called: "reachable g \<Longrightarrow> application_id (Txn c) \<noteq> 0 \<Longrightarrow>
           reachable (snd (evaluate approval_program c g))"

section \<open>A listing and its calls, for the concrete checks\<close>

text \<open>
  The scenario of the specification: asset 42 is owned by \<open>A\<close>, the admin is \<open>M\<close>, the
  escrow account is \<open>E\<close>, the buyer is \<open>B\<close>, the price is 100 and the application has
  id 7. An integer argument is 8 bytes, big-endian. \<open>addr_A\<close> is the 32 bytes of the
  address \<open>acct_A\<close>, as they stand in an argument or in the store.
\<close>

definition addr_A :: string where
  "addr_A = ''AAAAAAAAAAAAAAAAAAAAAAAAAAAAAAAA''"

definition addr_B :: string where
  "addr_B = ''BBBBBBBBBBBBBBBBBBBBBBBBBBBBBBBB''"

definition addr_M :: string where
  "addr_M = ''MMMMMMMMMMMMMMMMMMMMMMMMMMMMMMMM''"

definition addr_E :: string where
  "addr_E = ''EEEEEEEEEEEEEEEEEEEEEEEEEEEEEEEE''"

lift_definition acct_A :: address is addr_A
  by (simp add: addr_A_def)

lift_definition acct_B :: address is addr_B
  by (simp add: addr_B_def)

lift_definition acct_M :: address is addr_M
  by (simp add: addr_M_def)

lift_definition acct_E :: address is addr_E
  by (simp add: addr_E_def)

lift_definition zero_address :: address is "replicate 32 (CHR 0x00)"
  by simp

definition arg_42 :: string where
  "arg_42 = [CHR 0x00, CHR 0x00, CHR 0x00, CHR 0x00, CHR 0x00, CHR 0x00, CHR 0x00, CHR 0x2A]"

definition arg_100 :: string where
  "arg_100 = [CHR 0x00, CHR 0x00, CHR 0x00, CHR 0x00, CHR 0x00, CHR 0x00, CHR 0x00, CHR 0x64]"

definition arg_200_bytes :: string where
  "arg_200_bytes = replicate 200 (CHR 0x41)"

definition arg_9_bytes :: string where
  "arg_9_bytes = [CHR 0x00, CHR 0x00, CHR 0x00, CHR 0x00, CHR 0x00, CHR 0x00, CHR 0x00, CHR 0x00, CHR 0x2A]"

definition app_call :: "address \<Rightarrow> 64 word \<Rightarrow> string list \<Rightarrow> txn" where
  "app_call caller app args =
     \<lparr>type_enum = 6, sender = caller, receiver = zero_address, amount = 0,
      asset_receiver = zero_address, xfer_asset = 0, asset_amount = 0,
      application_id = app, application_args = args\<rparr>"

definition payment :: "address \<Rightarrow> address \<Rightarrow> 64 word \<Rightarrow> txn" where
  "payment payer payee amt =
     \<lparr>type_enum = 1, sender = payer, receiver = payee, amount = amt,
      asset_receiver = zero_address, xfer_asset = 0, asset_amount = 0,
      application_id = 0, application_args = []\<rparr>"

definition asset_transfer :: "address \<Rightarrow> address \<Rightarrow> 64 word \<Rightarrow> 64 word \<Rightarrow> txn" where
  "asset_transfer holder taker asset qty =
     \<lparr>type_enum = 4, sender = holder, receiver = zero_address, amount = 0,
      asset_receiver = taker, xfer_asset = asset, asset_amount = qty,
      application_id = 0, application_args = []\<rparr>"

definition single :: "txn \<Rightarrow> ctx" where
  "single t = \<lparr>Txn = t, Gtxn = [t]\<rparr>"

definition create_ctx :: ctx where
  "create_ctx = single (app_call acct_M 0 [arg_42, addr_A, addr_M])"

definition init_ctx :: ctx where
  "init_ctx = single (app_call acct_M 7 [AppMethods_initialize_escrow, addr_E])"

definition sell_ctx :: ctx where
  "sell_ctx = single (app_call acct_A 7 [AppMethods_sell, arg_100])"

definition stop_ctx :: ctx where
  "stop_ctx = single (app_call acct_A 7 [AppMethods_stop_selling])"

definition buy_ctx :: ctx where
  "buy_ctx = \<lparr>Txn = app_call acct_B 7 [AppMethods_buy],
              Gtxn = [app_call acct_B 7 [AppMethods_buy],
                      payment acct_B acct_A 100,
                      asset_transfer acct_E acct_B 42 1]\<rparr>"

definition listing_created :: gstate where
  "listing_created = Map.empty(Variables_app_state \<mapsto> NotInitialized,
                               Variables_asa_id \<mapsto> VUint 42,
                               Variables_asa_owner \<mapsto> VBytes addr_A,
                               Variables_app_admin \<mapsto> VBytes addr_M)"

definition listing_active :: gstate where
  "listing_active = listing_created(Variables_escrow_address \<mapsto> VBytes addr_E,
                                    Variables_app_state \<mapsto> Active)"

definition listing_selling :: gstate where
  "listing_selling = listing_active(Variables_asa_price \<mapsto> VUint 100,
                                    Variables_app_state \<mapsto> SellingInProgress)"

text \<open>Calls that are refused or fail.\<close>

definition sell_by_B_ctx :: ctx where
  "sell_by_B_ctx = single (app_call acct_B 7 [AppMethods_sell, arg_100])"

definition stop_by_B_ctx :: ctx where
  "stop_by_B_ctx = single (app_call acct_B 7 [AppMethods_stop_selling])"

definition buy_alone_ctx :: ctx where
  "buy_alone_ctx = single (app_call acct_B 7 [AppMethods_buy])"

definition underpaid_buy_ctx :: ctx where
  "underpaid_buy_ctx = \<lparr>Txn = app_call acct_B 7 [AppMethods_buy],
                        Gtxn = [app_call acct_B 7 [AppMethods_buy],
                                payment acct_B acct_A 99,
                                asset_transfer acct_E acct_B 42 1]\<rparr>"

definition create_long_id_ctx :: ctx where
  "create_long_id_ctx = single (app_call acct_M 0 [arg_9_bytes, addr_A, addr_M])"

definition create_long_owner_ctx :: ctx where
  "create_long_owner_ctx = single (app_call acct_M 0 [arg_42, arg_200_bytes, addr_M])"

definition create_two_args_ctx :: ctx where
  "create_two_args_ctx = single (app_call acct_M 0 [arg_42, addr_A])"

definition init_no_arg_ctx :: ctx where
  "init_no_arg_ctx = single (app_call acct_M 7 [AppMethods_initialize_escrow])"

text \<open>The buy group again, its call carrying one more argument.\<close>

definition buy_extra_arg_ctx :: ctx where
  "buy_extra_arg_ctx = \<lparr>Txn = app_call acct_B 7 [AppMethods_buy, arg_42],
                        Gtxn = [app_call acct_B 7 [AppMethods_buy, arg_42],
                                payment acct_B acct_A 100,
                                asset_transfer acct_E acct_B 42 1]\<rparr>"

section \<open>Evaluating the handlers\<close>

lemmas read_defs = Int'_def Bytes_def TxnType_Payment_def TxnType_AssetTransfer_def binop_def
  Eq_def Neq_def Btoi_def Txn_application_id_def Txn_sender_def Txn_application_args_def
  Txn_application_args_length_def Global_group_size_def gtxn_def Gtxn_type_enum_def
  Gtxn_sender_def Gtxn_receiver_def Gtxn_amount_def Gtxn_asset_receiver_def
  Gtxn_xfer_asset_def Gtxn_asset_amount_def App_globalGetEx_def hasValue_def
  AppState_not_initialized_def AppState_active_def AppState_selling_in_progress_def

lemmas stmt_defs = App_globalPut_def Return_def Assert_def If_Then_Else_def Seq_MaybeValue_def

lemmas key_defs = Variables_escrow_address_def Variables_asa_id_def Variables_asa_price_def
  Variables_asa_owner_def Variables_app_state_def Variables_app_admin_def

lemmas method_defs = AppMethods_initialize_escrow_def AppMethods_sell_def AppMethods_buy_def
  AppMethods_stop_selling_def

lemmas after_defs = after_buy_def after_sell_def after_initialize_escrow_def after_creation_def

lemma keys_distinct [simp]:
  "Variables_escrow_address \<noteq> Variables_asa_id"
  "Variables_escrow_address \<noteq> Variables_asa_price"
  "Variables_escrow_address \<noteq> Variables_asa_owner"
  "Variables_escrow_address \<noteq> Variables_app_state"
  "Variables_escrow_address \<noteq> Variables_app_admin"
  "Variables_asa_id \<noteq> Variables_escrow_address"
  "Variables_asa_id \<noteq> Variables_asa_price"
  "Variables_asa_id \<noteq> Variables_asa_owner"
  "Variables_asa_id \<noteq> Variables_app_state"
  "Variables_asa_id \<noteq> Variables_app_admin"
  "Variables_asa_price \<noteq> Variables_escrow_address"
  "Variables_asa_price \<noteq> Variables_asa_id"
  "Variables_asa_price \<noteq> Variables_asa_owner"
  "Variables_asa_price \<noteq> Variables_app_state"
  "Variables_asa_price \<noteq> Variables_app_admin"
  "Variables_asa_owner \<noteq> Variables_escrow_address"
  "Variables_asa_owner \<noteq> Variables_asa_id"
  "Variables_asa_owner \<noteq> Variables_asa_price"
  "Variables_asa_owner \<noteq> Variables_app_state"
  "Variables_asa_owner \<noteq> Variables_app_admin"
  "Variables_app_state \<noteq> Variables_escrow_address"
  "Variables_app_state \<noteq> Variables_asa_id"
  "Variables_app_state \<noteq> Variables_asa_price"
  "Variables_app_state \<noteq> Variables_asa_owner"
  "Variables_app_state \<noteq> Variables_app_admin"
  "Variables_app_admin \<noteq> Variables_escrow_address"
  "Variables_app_admin \<noteq> Variables_asa_id"
  "Variables_app_admin \<noteq> Variables_asa_price"
  "Variables_app_admin \<noteq> Variables_asa_owner"
  "Variables_app_admin \<noteq> Variables_app_state"
  by (simp_all add: key_defs)

lemma methods_distinct [simp]:
  "AppMethods_buy \<noteq> AppMethods_initialize_escrow"
  "AppMethods_buy \<noteq> AppMethods_stop_selling"
  "AppMethods_buy \<noteq> AppMethods_sell"
  "AppMethods_initialize_escrow \<noteq> AppMethods_buy"
  "AppMethods_initialize_escrow \<noteq> AppMethods_stop_selling"
  "AppMethods_initialize_escrow \<noteq> AppMethods_sell"
  "AppMethods_stop_selling \<noteq> AppMethods_buy"
  "AppMethods_stop_selling \<noteq> AppMethods_initialize_escrow"
  "AppMethods_stop_selling \<noteq> AppMethods_sell"
  "AppMethods_sell \<noteq> AppMethods_buy"
  "AppMethods_sell \<noteq> AppMethods_initialize_escrow"
  "AppMethods_sell \<noteq> AppMethods_stop_selling"
  by (simp_all add: method_defs)

text \<open>Addresses and their bytes.\<close>

lemma bytes_of_length [simp]: "length (bytes_of a) = 32"
  using bytes_of [of a] by simp

lemma bytes_of_eq [simp]: "(bytes_of a = bytes_of b) = (a = b)"
  by (rule bytes_of_inject)

text \<open>What the store takes under the keys of the program.\<close>

lemma put_error_uint [simp]:
  "put_error Variables_app_state (VUint n) = None"
  "put_error Variables_asa_id (VUint n) = None"
  "put_error Variables_asa_price (VUint n) = None"
  by (simp_all add: key_defs MaxAppKeyLen_def)

lemma storable_iff:
  "storable Variables_asa_owner s \<longleftrightarrow> length s \<le> 119"
  "storable Variables_app_admin s \<longleftrightarrow> length s \<le> 119"
  "storable Variables_escrow_address s \<longleftrightarrow> length s \<le> 114"
  by (auto simp add: storable_def key_defs MaxAppKeyLen_def MaxAppBytesValueLen_def
      MaxAppSumKeyValueLens_def)

lemma put_error_bytes [simp]:
  "put_error Variables_asa_owner (VBytes s) =
     (if storable Variables_asa_owner s then None else Some ValueTooLong)"
  "put_error Variables_app_admin (VBytes s) =
     (if storable Variables_app_admin s then None else Some ValueTooLong)"
  "put_error Variables_escrow_address (VBytes s) =
     (if storable Variables_escrow_address s then None else Some ValueTooLong)"
  by (simp_all add: storable_def key_defs MaxAppKeyLen_def MaxAppBytesValueLen_def
      MaxAppSumKeyValueLens_def)

declare put_error.simps [simp del]

lemma storable_address [simp]:
  "storable Variables_asa_owner (bytes_of a)"
  "storable Variables_app_admin (bytes_of a)"
  "storable Variables_escrow_address (bytes_of a)"
  by (simp_all add: storable_iff)

text \<open>A count below \<open>2 ^ 64\<close> is compared as the number it is.\<close>

lemma count_eq:
  assumes "n < 2 ^ 64" "m < 2 ^ 64"
  shows "((of_nat n :: 64 word) = of_nat m) = (n = m)"
  using assms by (simp add: word_of_nat_eq_iff take_bit_nat_eq_self)

lemma count_eq_1: "n < 2 ^ 64 \<Longrightarrow> ((of_nat n :: 64 word) = 1) = (n = 1)"
  using count_eq [of n 1] by simp

lemma count_eq_2: "n < 2 ^ 64 \<Longrightarrow> ((of_nat n :: 64 word) = 2) = (n = 2)"
  using count_eq [of n 2] by simp

lemma count_eq_3: "n < 2 ^ 64 \<Longrightarrow> ((of_nat n :: 64 word) = 3) = (n = 3)"
  using count_eq [of n 3] by simp

lemma stored_upd [simp]: "stored (g(k \<mapsto> v)) k' = (if k' = k then v else stored g k')"
  by (simp add: stored_def)

lemma stored_empty [simp]: "stored Map.empty k = VUint 0"
  by (simp add: stored_def)

lemma stored_Some: "stored g k = v \<Longrightarrow> v \<noteq> VUint 0 \<Longrightarrow> g k = Some v"
  by (auto simp: stored_def split: option.splits)

lemma is_bytesE: "is_bytes v \<Longrightarrow> (\<And>s. v = VBytes s \<Longrightarrow> P) \<Longrightarrow> P"
  by (cases v) simp_all

lemma is_uintE: "is_uint v \<Longrightarrow> (\<And>n. v = VUint n \<Longrightarrow> P) \<Longrightarrow> P"
  by (cases v) simp_all

lemma globalGet_stored [simp]: "App_globalGet k c g = Inr (stored g k)"
  by (simp add: App_globalGet_def stored_def split: option.splits)

text \<open>
  With a well-shaped store and counts that fit, each handler evaluates to what its
  conditions say.
\<close>

lemma stop_selling_eval:
  assumes "listing_inv g" "counts_fit c"
  shows "stop_selling c g =
    (if stop_selling_conditions c g
     then Inr (Halt 1 (g(Variables_app_state \<mapsto> Active)))
     else Inr (Halt 0 g))"
proof -
  from assms(1) obtain ow st
    where "stored g Variables_asa_owner = VBytes ow" "stored g Variables_app_state = VUint st"
    by (auto simp: listing_inv_def elim!: is_bytesE split: option.splits)
  with assms(2) show ?thesis
    by (simp add: stop_selling_def stop_selling_conditions_def Let_def read_defs stmt_defs
        counts_fit_def count_eq_1)
qed

lemma sell_eval:
  assumes "listing_inv g" "counts_fit c"
  shows "sell c g =
    (if sell_conditions c g
     then (if length (application_args (Txn c) ! 1) \<le> 8
           then Inr (Halt 1 (after_sell c g)) else Inl BtoiTooLong)
     else Inr (Halt 0 g))"
proof -
  from assms(1) obtain ow st
    where "stored g Variables_asa_owner = VBytes ow" "stored g Variables_app_state = VUint st"
    by (auto simp: listing_inv_def elim!: is_bytesE split: option.splits)
  with assms(2) show ?thesis
    by (auto simp add: sell_def sell_conditions_def Let_def read_defs stmt_defs counts_fit_def
        count_eq_1 count_eq_2 after_defs)
qed

lemma initialize_escrow_eval:
  assumes "listing_inv g" "counts_fit c"
  shows "initialize_escrow c g =
    (if initialize_escrow_conditions c g
     then (if 1 < length (application_args (Txn c))
           then (if storable Variables_escrow_address (application_args (Txn c) ! 1)
                 then Inr (Halt 1 (after_initialize_escrow c g)) else Inl ValueTooLong)
           else Inl IndexOutOfRange)
     else Inr (Halt 0 g))"
proof -
  from assms(1) obtain ad where "stored g Variables_app_admin = VBytes ad"
    by (auto simp: listing_inv_def elim!: is_bytesE)
  with assms(2) show ?thesis
    by (auto simp add: initialize_escrow_def initialize_escrow_conditions_def Let_def read_defs
        stmt_defs counts_fit_def count_eq_1 after_defs split: option.splits)
qed

lemma buy_eval:
  assumes "listing_inv g" "counts_fit c"
  shows "buy c g =
    (if length (Gtxn c) < 3 then Inl IndexOutOfRange
     else if g Variables_escrow_address = None then Inl TypeMismatch
     else if buy_conditions c g then Inr (Halt 1 (after_buy c g))
     else Inr (Halt 0 g))"
proof -
  from assms(1) obtain ow st aid pr
    where *: "stored g Variables_asa_owner = VBytes ow" "stored g Variables_app_state = VUint st"
      "stored g Variables_asa_id = VUint aid" "stored g Variables_asa_price = VUint pr"
    by (auto simp: listing_inv_def elim!: is_bytesE is_uintE split: option.splits)
  show ?thesis
  proof (cases "g Variables_escrow_address")
    case None
    then have "stored g Variables_escrow_address = VUint 0"
      by (simp add: stored_def)
    with * None assms(2) show ?thesis
      by (simp add: buy_def Let_def read_defs stmt_defs counts_fit_def count_eq_3)
  next
    case (Some e)
    with assms(1) obtain es where "stored g Variables_escrow_address = VBytes es"
      by (auto simp: listing_inv_def stored_def elim!: is_bytesE)
    with * Some assms(2) show ?thesis
      by (auto simp add: buy_def buy_conditions_def payment_valid_def asset_transfer_valid_def
          Let_def read_defs stmt_defs counts_fit_def count_eq_3 after_defs)
  qed
qed

lemma app_initialization_eval:
  assumes "counts_fit c"
  shows "app_initialization c g =
    (if length (application_args (Txn c)) = 3
     then (if length (application_args (Txn c) ! 0) \<le> 8
           then (if storable Variables_asa_owner (application_args (Txn c) ! 1)
                 then (if storable Variables_app_admin (application_args (Txn c) ! 2)
                       then Inr (Halt 1 (after_creation c g)) else Inl ValueTooLong)
                 else Inl ValueTooLong)
           else Inl BtoiTooLong)
     else Inl AssertFailed)"
  using assms
  by (auto simp add: app_initialization_def Let_def read_defs stmt_defs counts_fit_def
      count_eq_3 after_defs)

text \<open>The dispatch: which handler a call runs.\<close>

lemma application_start_eval:
  "application_start c g =
    (if application_id (Txn c) = 0 then app_initialization c g
     else if application_args (Txn c) = [] then Inl IndexOutOfRange
     else if application_args (Txn c) ! 0 = AppMethods_buy then buy c g
     else if application_args (Txn c) ! 0 = AppMethods_initialize_escrow then initialize_escrow c g
     else if application_args (Txn c) ! 0 = AppMethods_stop_selling then stop_selling c g
     else if application_args (Txn c) ! 0 = AppMethods_sell then sell c g
     else Inl NoCondMatched)"
  by (simp add: application_start_def read_defs)

text \<open>
  Whatever the store and the group: a handler that halts has either returned 0 with
  the store as it found it, or returned 1 after its \<^verbatim>\<open>update_state\<close>, and then the checks
  it made held.
\<close>

lemma sell_halts:
  assumes "sell c g = Inr r"
  shows "r = Halt 0 g \<or>
         (r = Halt 1 (after_sell c g) \<and>
          (stored g Variables_app_state = Active \<or>
           stored g Variables_app_state = SellingInProgress) \<and>
          stored g Variables_asa_owner = VBytes (bytes_of (sender (Txn c))))"
  using assms
  by (cases "stored g Variables_asa_owner"; cases "stored g Variables_app_state")
    (auto simp add: sell_def Let_def read_defs stmt_defs after_defs split: if_splits)

lemma stop_selling_halts:
  assumes "stop_selling c g = Inr r"
  shows "r = Halt 0 g \<or>
         (r = Halt 1 (g(Variables_app_state \<mapsto> Active)) \<and>
          is_uint (stored g Variables_app_state) \<and>
          stored g Variables_app_state \<noteq> NotInitialized \<and>
          stored g Variables_asa_owner = VBytes (bytes_of (sender (Txn c))))"
  using assms
  by (cases "stored g Variables_asa_owner"; cases "stored g Variables_app_state")
    (auto simp add: stop_selling_def Let_def read_defs stmt_defs split: if_splits)

lemma initialize_escrow_halts:
  assumes "initialize_escrow c g = Inr r"
  shows "r = Halt 0 g \<or>
         (r = Halt 1 (after_initialize_escrow c g) \<and>
          g Variables_escrow_address = None \<and>
          stored g Variables_app_admin = VBytes (bytes_of (sender (Txn c))))"
  using assms
  by (cases "stored g Variables_app_admin"; cases "g Variables_escrow_address")
    (auto simp add: initialize_escrow_def Let_def read_defs stmt_defs after_defs
      split: if_splits)

lemma buy_halts:
  assumes "buy c g = Inr r"
  shows "r = Halt 0 g \<or>
         (r = Halt 1 (after_buy c g) \<and>
          stored g Variables_app_state = SellingInProgress \<and>
          is_bytes (stored g Variables_escrow_address))"
  using assms
  by (cases "stored g Variables_asa_owner"; cases "stored g Variables_app_state";
      cases "stored g Variables_asa_id"; cases "stored g Variables_asa_price";
      cases "stored g Variables_escrow_address")
    (auto simp add: buy_def Let_def read_defs stmt_defs after_defs split: if_splits)

lemma app_initialization_halts:
  assumes "app_initialization c g = Inr r"
  shows "r = Halt 1 (after_creation c g)"
  using assms
  by (auto simp add: app_initialization_def Let_def read_defs stmt_defs after_defs
      split: if_splits)

text \<open>The store after an evaluation: changed only by an approved call.\<close>

lemma evaluate_cases:
  assumes "evaluate p c g = (out, g')"
  obtains (kept) "out \<noteq> Approved" "g' = g"
  | (written) n where "out = Approved" "n \<noteq> 0" "p c g = Inr (Halt n g')"
  using assms
  by (auto simp: evaluate_def split: sum.splits flow.splits if_splits)

lemma evaluate_Rejected: "p c g = Inr (Halt 0 g') \<Longrightarrow> evaluate p c g = (Rejected, g)"
  by (simp add: evaluate_def)

lemma evaluate_Approved: "p c g = Inr (Halt 1 g') \<Longrightarrow> evaluate p c g = (Approved, g')"
  by (simp add: evaluate_def)

lemma evaluate_Aborted: "p c g = Inl e \<Longrightarrow> evaluate p c g = (Aborted e, g)"
  by (simp add: evaluate_def)

text \<open>
  One call of the created application: when it is approved, the first argument names
  the action and the store is the one the action's \<^verbatim>\<open>update_state\<close> leaves.
\<close>

lemma call_cases:
  assumes "application_id (Txn c) \<noteq> 0"
  shows "(fst (evaluate approval_program c g) \<noteq> Approved \<and> snd (evaluate approval_program c g) = g) \<or>
         (evaluate approval_program c g = (Approved, after_buy c g) \<and>
            application_args (Txn c) \<noteq> [] \<and> application_args (Txn c) ! 0 = AppMethods_buy \<and>
            stored g Variables_app_state = SellingInProgress \<and>
            is_bytes (stored g Variables_escrow_address)) \<or>
         (evaluate approval_program c g = (Approved, after_initialize_escrow c g) \<and>
            application_args (Txn c) \<noteq> [] \<and> application_args (Txn c) ! 0 = AppMethods_initialize_escrow \<and>
            g Variables_escrow_address = None) \<or>
         (evaluate approval_program c g = (Approved, g(Variables_app_state \<mapsto> Active)) \<and>
            application_args (Txn c) \<noteq> [] \<and> application_args (Txn c) ! 0 = AppMethods_stop_selling \<and>
            is_uint (stored g Variables_app_state) \<and>
            stored g Variables_app_state \<noteq> NotInitialized) \<or>
         (evaluate approval_program c g = (Approved, after_sell c g) \<and>
            application_args (Txn c) \<noteq> [] \<and> application_args (Txn c) ! 0 = AppMethods_sell \<and>
            (stored g Variables_app_state = Active \<or>
             stored g Variables_app_state = SellingInProgress))"
proof (cases "evaluate approval_program c g")
  case (Pair out g')
  then show ?thesis
  proof (cases rule: evaluate_cases)
    case kept
    with Pair show ?thesis by simp
  next
    case (written n)
    from written(3) assms show ?thesis
      using buy_halts [of c g "Halt n g'"] initialize_escrow_halts [of c g "Halt n g'"]
        stop_selling_halts [of c g "Halt n g'"] sell_halts [of c g "Halt n g'"] written(1,2) Pair
      by (auto simp: approval_program_def application_start_eval split: if_splits)
  qed
qed

section \<open>The scenario of the specification, evaluated\<close>

lemma acct_bytes [simp]:
  "bytes_of acct_A = addr_A" "bytes_of acct_B = addr_B"
  "bytes_of acct_M = addr_M" "bytes_of acct_E = addr_E"
  by (rule acct_A.rep_eq acct_B.rep_eq acct_M.rep_eq acct_E.rep_eq)+

lemma addr_lengths [simp]:
  "length addr_A = 32" "length addr_B = 32" "length addr_M = 32" "length addr_E = 32"
  "length arg_200_bytes = 200"
  by (simp_all add: addr_A_def addr_B_def addr_M_def addr_E_def arg_200_bytes_def)

lemma addr_storable [simp]:
  "storable Variables_asa_owner addr_A" "storable Variables_app_admin addr_M"
  "storable Variables_escrow_address addr_E"
  "\<not> storable Variables_asa_owner arg_200_bytes"
  by (simp_all add: storable_iff addr_A_def addr_M_def addr_E_def arg_200_bytes_def)

lemma addrs_distinct [simp]:
  "addr_A \<noteq> addr_B" "addr_A \<noteq> addr_M" "addr_A \<noteq> addr_E"
  "addr_B \<noteq> addr_A" "addr_B \<noteq> addr_M" "addr_B \<noteq> addr_E"
  "addr_M \<noteq> addr_A" "addr_M \<noteq> addr_B" "addr_M \<noteq> addr_E"
  "addr_E \<noteq> addr_A" "addr_E \<noteq> addr_B" "addr_E \<noteq> addr_M"
  by (simp_all add: addr_A_def addr_B_def addr_M_def addr_E_def)

lemma arg_values [simp]: "be_value arg_42 = 42" "be_value arg_100 = 100"
  "length arg_42 = 8" "length arg_100 = 8" "length arg_9_bytes = 9"
  by (simp_all add: be_value_def arg_42_def arg_100_def arg_9_bytes_def)


lemma created_stored [simp]:
  "stored listing_created Variables_app_state = NotInitialized"
  "stored listing_created Variables_asa_id = VUint 42"
  "stored listing_created Variables_asa_owner = VBytes addr_A"
  "stored listing_created Variables_app_admin = VBytes addr_M"
  "stored listing_created Variables_asa_price = VUint 0"
  "listing_created Variables_escrow_address = None"
  "listing_created Variables_asa_price = None"
  by (simp_all add: listing_created_def stored_def)

lemma active_stored [simp]:
  "stored listing_active Variables_app_state = Active"
  "stored listing_active Variables_asa_id = VUint 42"
  "stored listing_active Variables_asa_owner = VBytes addr_A"
  "stored listing_active Variables_app_admin = VBytes addr_M"
  "stored listing_active Variables_asa_price = VUint 0"
  "stored listing_active Variables_escrow_address = VBytes addr_E"
  "listing_active Variables_escrow_address = Some (VBytes addr_E)"
  "listing_active Variables_asa_price = None"
  by (simp_all add: listing_active_def)

lemma selling_stored [simp]:
  "stored listing_selling Variables_app_state = SellingInProgress"
  "stored listing_selling Variables_asa_id = VUint 42"
  "stored listing_selling Variables_asa_owner = VBytes addr_A"
  "stored listing_selling Variables_app_admin = VBytes addr_M"
  "stored listing_selling Variables_asa_price = VUint 100"
  "stored listing_selling Variables_escrow_address = VBytes addr_E"
  "listing_selling Variables_escrow_address = Some (VBytes addr_E)"
  "listing_selling Variables_asa_price = Some (VUint 100)"
  by (simp_all add: listing_selling_def)

lemma example_listing_inv [simp]:
  "listing_inv listing_created" "listing_inv listing_active" "listing_inv listing_selling"
  by (simp_all add: listing_inv_def)

text \<open>Create, initialise the escrow, sell at 100, buy.\<close>

lemma scenario_create: "evaluate approval_program create_ctx Map.empty = (Approved, listing_created)"
  by (simp add: approval_program_def application_start_eval app_initialization_eval counts_fit_def
      create_ctx_def single_def app_call_def evaluate_def after_creation_def listing_created_def)

lemma scenario_init: "evaluate approval_program init_ctx listing_created = (Approved, listing_active)"
  by (simp add: approval_program_def application_start_eval initialize_escrow_eval counts_fit_def
      initialize_escrow_conditions_def
      init_ctx_def single_def app_call_def evaluate_def after_initialize_escrow_def listing_active_def)

lemma scenario_sell: "evaluate approval_program sell_ctx listing_active = (Approved, listing_selling)"
  by (simp add: approval_program_def application_start_eval sell_eval counts_fit_def
      sell_conditions_def
      sell_ctx_def single_def app_call_def evaluate_def after_sell_def listing_selling_def)

lemma scenario_buy: "evaluate approval_program buy_ctx listing_selling =
   (Approved, listing_selling(Variables_asa_owner \<mapsto> VBytes addr_B, Variables_app_state \<mapsto> Active))"
  by (simp add: approval_program_def application_start_eval buy_eval counts_fit_def
      buy_conditions_def payment_valid_def asset_transfer_valid_def
      buy_ctx_def app_call_def payment_def asset_transfer_def evaluate_def after_buy_def)

section \<open>The shape of the store is kept\<close>

lemma after_creation_listing_inv: "listing_inv (after_creation c Map.empty)"
  by (simp add: listing_inv_def after_creation_def)

lemma creation_listing_inv:
  assumes "application_id (Txn c) = 0" "evaluate approval_program c Map.empty = (Approved, g)"
  shows "listing_inv g"
  using assms(2)
proof (cases rule: evaluate_cases)
  case (written n)
  with assms(1) have "g = after_creation c Map.empty"
    using app_initialization_halts [of c Map.empty "Halt n g"]
    by (simp add: approval_program_def application_start_eval)
  then show ?thesis by (simp add: after_creation_listing_inv)
qed simp

lemma call_listing_inv:
  assumes "listing_inv g" "application_id (Txn c) \<noteq> 0"
  shows "listing_inv (snd (evaluate approval_program c g))"
  using call_cases [OF assms(2), of g] assms(1)
  by (elim disjE conjE)
    (auto simp: listing_inv_def after_defs stored_def split: option.splits)

lemma reachable_listing_inv: "reachable g \<Longrightarrow> listing_inv g"
  by (induction rule: reachable.induct) (auto intro: creation_listing_inv call_listing_inv)

lemma run_calls_listing_inv:
  assumes "listing_inv g" "\<forall>c\<in>set cs. application_id (Txn c) \<noteq> 0"
  shows "listing_inv (run_calls g cs)"
  using assms
proof (induction cs arbitrary: g)
  case Nil
  then show ?case by simp
next
  case (Cons c cs)
  then have "listing_inv (snd (evaluate approval_program c g))"
    by (simp add: call_listing_inv)
  with Cons show ?case by simp
qed

lemma escrow_kept:
  assumes "g Variables_escrow_address \<noteq> None"
  shows "snd (evaluate approval_program c g) Variables_escrow_address = g Variables_escrow_address"
proof (cases "application_id (Txn c) = 0")
  case True
  obtain out g' where e: "evaluate approval_program c g = (out, g')"
    by (cases "evaluate approval_program c g")
  then show ?thesis
  proof (cases rule: evaluate_cases)
    case kept
    with e show ?thesis by simp
  next
    case (written n)
    with True have "g' = after_creation c g"
      using app_initialization_halts [of c g "Halt n g'"]
      by (simp add: approval_program_def application_start_eval)
    with e show ?thesis by (simp add: after_creation_def)
  qed
next
  case False
  from call_cases [OF False, of g] assms show ?thesis
    by (elim disjE conjE) (auto simp: after_defs)
qed

lemma run_calls_escrow_kept:
  "g Variables_escrow_address \<noteq> None \<Longrightarrow>
     run_calls g cs Variables_escrow_address = g Variables_escrow_address"
proof (induction cs arbitrary: g)
  case Nil
  then show ?case by simp
next
  case (Cons c cs)
  have "snd (evaluate approval_program c g) Variables_escrow_address = g Variables_escrow_address"
    using Cons.prems by (rule escrow_kept)
  with Cons show ?case by simp
qed

lemma escrow_written:
  assumes "snd (evaluate approval_program c g) Variables_escrow_address \<noteq> g Variables_escrow_address"
  shows "application_id (Txn c) \<noteq> 0 \<and> application_args (Txn c) \<noteq> [] \<and>
         application_args (Txn c) ! 0 = AppMethods_initialize_escrow \<and>
         g Variables_escrow_address = None \<and>
         evaluate approval_program c g = (Approved, after_initialize_escrow c g)"
proof (cases "application_id (Txn c) = 0")
  case True
  obtain out g' where e: "evaluate approval_program c g = (out, g')"
    by (cases "evaluate approval_program c g")
  then have False
  proof (cases rule: evaluate_cases)
    case kept
    with e assms show ?thesis by simp
  next
    case (written n)
    with True have "g' = after_creation c g"
      using app_initialization_halts [of c g "Halt n g'"]
      by (simp add: approval_program_def application_start_eval)
    with e assms show ?thesis by (simp add: after_creation_def)
  qed
  then show ?thesis ..
next
  case False
  from call_cases [OF False, of g] assms False show ?thesis
    by (elim disjE conjE) (auto simp: after_defs)
qed

lemma app_call_fields [simp]:
  "type_enum (app_call caller app args) = 6"
  "sender (app_call caller app args) = caller"
  "receiver (app_call caller app args) = zero_address"
  "amount (app_call caller app args) = 0"
  "asset_receiver (app_call caller app args) = zero_address"
  "xfer_asset (app_call caller app args) = 0"
  "asset_amount (app_call caller app args) = 0"
  "application_id (app_call caller app args) = app"
  "application_args (app_call caller app args) = args"
  by (simp_all add: app_call_def)

lemma payment_fields [simp]:
  "type_enum (payment payer payee amt) = 1"
  "sender (payment payer payee amt) = payer"
  "receiver (payment payer payee amt) = payee"
  "amount (payment payer payee amt) = amt"
  "asset_receiver (payment payer payee amt) = zero_address"
  "xfer_asset (payment payer payee amt) = 0"
  "asset_amount (payment payer payee amt) = 0"
  "application_id (payment payer payee amt) = 0"
  "application_args (payment payer payee amt) = []"
  by (simp_all add: payment_def)

lemma asset_transfer_fields [simp]:
  "type_enum (asset_transfer holder taker asset qty) = 4"
  "sender (asset_transfer holder taker asset qty) = holder"
  "receiver (asset_transfer holder taker asset qty) = zero_address"
  "amount (asset_transfer holder taker asset qty) = 0"
  "asset_receiver (asset_transfer holder taker asset qty) = taker"
  "xfer_asset (asset_transfer holder taker asset qty) = asset"
  "asset_amount (asset_transfer holder taker asset qty) = qty"
  "application_id (asset_transfer holder taker asset qty) = 0"
  "application_args (asset_transfer holder taker asset qty) = []"
  by (simp_all add: asset_transfer_def)

lemma single_fields [simp]: "Txn (single t) = t" "Gtxn (single t) = [t]"
  by (simp_all add: single_def)

lemma example_ctx_fields [simp]:
  "Txn buy_ctx = app_call acct_B 7 [AppMethods_buy]"
  "Gtxn buy_ctx = [app_call acct_B 7 [AppMethods_buy], payment acct_B acct_A 100,
                   asset_transfer acct_E acct_B 42 1]"
  "Txn underpaid_buy_ctx = app_call acct_B 7 [AppMethods_buy]"
  "Gtxn underpaid_buy_ctx = [app_call acct_B 7 [AppMethods_buy], payment acct_B acct_A 99,
                             asset_transfer acct_E acct_B 42 1]"
  "Txn buy_extra_arg_ctx = app_call acct_B 7 [AppMethods_buy, arg_42]"
  "Gtxn buy_extra_arg_ctx = [app_call acct_B 7 [AppMethods_buy, arg_42],
                             payment acct_B acct_A 100, asset_transfer acct_E acct_B 42 1]"
  by (simp_all add: buy_ctx_def underpaid_buy_ctx_def buy_extra_arg_ctx_def)

lemmas single_ctx_defs = create_long_owner_ctx_def create_ctx_def init_ctx_def sell_ctx_def stop_ctx_def sell_by_B_ctx_def
  stop_by_B_ctx_def buy_alone_ctx_def create_long_id_ctx_def create_two_args_ctx_def
  init_no_arg_ctx_def

lemma counts_fit_small [simp]:
  "length (Gtxn c) \<le> 16 \<Longrightarrow> length (application_args (Txn c)) \<le> 16 \<Longrightarrow> counts_fit c"
  by (simp add: counts_fit_def)

lemma after_buy_stored [simp]:
  "stored (after_buy c g) Variables_asa_owner = VBytes (bytes_of (sender (Gtxn c ! 0)))"
  "stored (after_buy c g) Variables_app_state = Active"
  by (simp_all add: after_buy_def)

lemma single_ctx_fields [simp]:
  "Txn create_ctx = app_call acct_M 0 [arg_42, addr_A, addr_M]"
  "Gtxn create_ctx = [app_call acct_M 0 [arg_42, addr_A, addr_M]]"
  "Txn init_ctx = app_call acct_M 7 [AppMethods_initialize_escrow, addr_E]"
  "Gtxn init_ctx = [app_call acct_M 7 [AppMethods_initialize_escrow, addr_E]]"
  "Txn sell_ctx = app_call acct_A 7 [AppMethods_sell, arg_100]"
  "Gtxn sell_ctx = [app_call acct_A 7 [AppMethods_sell, arg_100]]"
  "Txn stop_ctx = app_call acct_A 7 [AppMethods_stop_selling]"
  "Gtxn stop_ctx = [app_call acct_A 7 [AppMethods_stop_selling]]"
  "Txn sell_by_B_ctx = app_call acct_B 7 [AppMethods_sell, arg_100]"
  "Gtxn sell_by_B_ctx = [app_call acct_B 7 [AppMethods_sell, arg_100]]"
  "Txn stop_by_B_ctx = app_call acct_B 7 [AppMethods_stop_selling]"
  "Gtxn stop_by_B_ctx = [app_call acct_B 7 [AppMethods_stop_selling]]"
  "Txn buy_alone_ctx = app_call acct_B 7 [AppMethods_buy]"
  "Gtxn buy_alone_ctx = [app_call acct_B 7 [AppMethods_buy]]"
  "Txn create_long_id_ctx = app_call acct_M 0 [arg_9_bytes, addr_A, addr_M]"
  "Gtxn create_long_id_ctx = [app_call acct_M 0 [arg_9_bytes, addr_A, addr_M]]"
  "Txn create_long_owner_ctx = app_call acct_M 0 [arg_42, arg_200_bytes, addr_M]"
  "Gtxn create_long_owner_ctx = [app_call acct_M 0 [arg_42, arg_200_bytes, addr_M]]"
  "Txn create_two_args_ctx = app_call acct_M 0 [arg_42, addr_A]"
  "Gtxn create_two_args_ctx = [app_call acct_M 0 [arg_42, addr_A]]"
  "Txn init_no_arg_ctx = app_call acct_M 7 [AppMethods_initialize_escrow]"
  "Gtxn init_no_arg_ctx = [app_call acct_M 7 [AppMethods_initialize_escrow]]"
  by (simp_all add: single_ctx_defs)

section \<open>The lifecycle state and the price across calls\<close>

lemma creation_cases:
  assumes "application_id (Txn c) = 0"
  shows "(fst (evaluate approval_program c g) \<noteq> Approved \<and> snd (evaluate approval_program c g) = g) \<or>
         evaluate approval_program c g = (Approved, after_creation c g)"
proof (cases "evaluate approval_program c g")
  case (Pair out g')
  then show ?thesis
  proof (cases rule: evaluate_cases)
    case kept
    with Pair show ?thesis by simp
  next
    case (written n)
    with assms have "g' = after_creation c g"
      using app_initialization_halts [of c g "Halt n g'"]
      by (simp add: approval_program_def application_start_eval)
    with Pair written show ?thesis by simp
  qed
qed

lemma call_leaves_NotInitialized:
  assumes "application_id (Txn c) \<noteq> 0" "stored g Variables_app_state = NotInitialized"
    "stored (snd (evaluate approval_program c g)) Variables_app_state \<noteq> NotInitialized"
  shows "application_args (Txn c) \<noteq> [] \<and>
         application_args (Txn c) ! 0 = AppMethods_initialize_escrow \<and>
         evaluate approval_program c g = (Approved, after_initialize_escrow c g)"
  using call_cases [OF assms(1), of g] assms(2,3)
  by (elim disjE conjE) (auto simp: after_defs)

lemma call_stays_initialized:
  assumes "application_id (Txn c) \<noteq> 0"
    "stored g Variables_app_state = Active \<or> stored g Variables_app_state = SellingInProgress"
  shows "stored (snd (evaluate approval_program c g)) Variables_app_state = Active \<or>
         stored (snd (evaluate approval_program c g)) Variables_app_state = SellingInProgress"
  using call_cases [OF assms(1), of g] assms(2)
  by (elim disjE conjE) (auto simp: after_defs)

lemma run_calls_stay_initialized:
  assumes "\<forall>c\<in>set cs. application_id (Txn c) \<noteq> 0"
    "stored g Variables_app_state = Active \<or> stored g Variables_app_state = SellingInProgress"
  shows "stored (run_calls g cs) Variables_app_state = Active \<or>
         stored (run_calls g cs) Variables_app_state = SellingInProgress"
  using assms
proof (induction cs arbitrary: g)
  case Nil
  then show ?case by simp
next
  case (Cons c cs)
  from Cons.prems have "application_id (Txn c) \<noteq> 0"
    by simp
  then have "stored (snd (evaluate approval_program c g)) Variables_app_state = Active \<or>
      stored (snd (evaluate approval_program c g)) Variables_app_state = SellingInProgress"
    using Cons.prems(2) by (rule call_stays_initialized)
  with Cons.IH [of "snd (evaluate approval_program c g)"] Cons.prems(1) show ?case
    by simp
qed

lemma price_written:
  assumes "snd (evaluate approval_program c g) Variables_asa_price \<noteq> g Variables_asa_price"
  shows "application_id (Txn c) \<noteq> 0 \<and> application_args (Txn c) \<noteq> [] \<and>
         application_args (Txn c) ! 0 = AppMethods_sell \<and>
         evaluate approval_program c g = (Approved, after_sell c g)"
proof (cases "application_id (Txn c) = 0")
  case True
  from creation_cases [OF True, of g] assms show ?thesis
    by (auto simp: after_defs)
next
  case False
  from call_cases [OF False, of g] assms False show ?thesis
    by (elim disjE conjE) (auto simp: after_defs)
qed

lemma scenario_buy_handler:
  "evaluate buy buy_ctx listing_selling = (Approved, after_buy buy_ctx listing_selling)"
  by (simp add: buy_eval buy_conditions_def payment_valid_def asset_transfer_valid_def
      evaluate_def)

lemma scenario_stop_handler:
  "evaluate stop_selling stop_ctx listing_selling =
     (Approved, listing_selling(Variables_app_state \<mapsto> Active))"
  by (simp add: stop_selling_eval stop_selling_conditions_def evaluate_def)

lemma scenario_stop:
  "evaluate approval_program stop_ctx listing_selling =
     (Approved, listing_selling(Variables_app_state \<mapsto> Active))"
  by (simp add: approval_program_def application_start_eval stop_selling_eval
      stop_selling_conditions_def evaluate_def)

lemma scenario_reachable:
  "reachable listing_created" "reachable listing_active" "reachable listing_selling"
proof -
  show c: "reachable listing_created"
    using reachable.created [of create_ctx listing_created] scenario_create by simp
  from reachable.called [OF c, of init_ctx] show a: "reachable listing_active"
    by (simp add: scenario_init)
  from reachable.called [OF a, of sell_ctx] show "reachable listing_selling"
    by (simp add: scenario_sell)
qed

text \<open>
  In a group the runtime presents, the call being evaluated is one of the records and
  is an application call (type 6). When records 1 and 2 of a group of 3 are a payment
  and an asset transfer, it is therefore record 0.
\<close>

lemma evaluated_call_is_record_0:
  assumes "Txn c \<in> set (Gtxn c)" "type_enum (Txn c) = 6" "length (Gtxn c) = 3"
    "type_enum (Gtxn c ! 1) = 1" "type_enum (Gtxn c ! 2) = 4"
  shows "Txn c = Gtxn c ! 0"
proof -
  from assms(1) obtain i where i: "i < length (Gtxn c)" "Gtxn c ! i = Txn c"
    by (auto simp: in_set_conv_nth)
  with assms(3) have "i = 0 \<or> i = 1 \<or> i = 2"
    by auto
  with i(2) assms(2,4,5) show ?thesis
    by auto
qed

section \<open>The claims\<close>

text \<open>
  C1. As stated the claim fails: the operands of \<^verbatim>\<open>can_buy\<close> are all evaluated, so a
  group of fewer than 3 records makes \<^verbatim>\<open>Gtxn[1]\<close> or \<^verbatim>\<open>Gtxn[2]\<close> fail, and buy aborts
  instead of returning reject.
\<close>

theorem buy_group_of_one_counterexample:
  "length (Gtxn buy_alone_ctx) \<noteq> 3 \<and>
   buy buy_alone_ctx listing_selling = Inl IndexOutOfRange \<and>
   evaluate buy buy_alone_ctx listing_selling = (Aborted IndexOutOfRange, listing_selling) \<and>
   fst (evaluate buy buy_alone_ctx listing_selling) \<noteq> Rejected"
  by (simp add: buy_eval evaluate_def buy_alone_ctx_def)

text \<open>
  C1, amended. On a store of the shape the application keeps: when all the conditions
  hold, buy returns 1, the owner becomes the sender of record 0 and the lifecycle state
  becomes Active; when one of them fails, buy is not approved and the store is
  unchanged: it returns reject when the group has at least 3 records and the escrow
  address is set, and it aborts when the group has fewer than 3 records or the escrow
  address is absent.
\<close>

theorem buy_atomic:
  assumes "listing_inv g" "counts_fit c"
  shows "(buy_conditions c g \<longrightarrow>
            buy c g = Inr (Halt 1 (after_buy c g)) \<and>
            evaluate buy c g = (Approved, after_buy c g) \<and>
            stored (after_buy c g) Variables_asa_owner = VBytes (bytes_of (sender (Gtxn c ! 0))) \<and>
            stored (after_buy c g) Variables_app_state = Active) \<and>
         (\<not> buy_conditions c g \<longrightarrow>
            fst (evaluate buy c g) \<noteq> Approved \<and>
            snd (evaluate buy c g) = g \<and>
            (3 \<le> length (Gtxn c) \<and> g Variables_escrow_address \<noteq> None \<longrightarrow>
               buy c g = Inr (Halt 0 g) \<and> evaluate buy c g = (Rejected, g)) \<and>
            (length (Gtxn c) < 3 \<longrightarrow>
               buy c g = Inl IndexOutOfRange \<and> evaluate buy c g = (Aborted IndexOutOfRange, g)) \<and>
            (3 \<le> length (Gtxn c) \<and> g Variables_escrow_address = None \<longrightarrow>
               buy c g = Inl TypeMismatch \<and> evaluate buy c g = (Aborted TypeMismatch, g)))"
proof -
  have sold: "g Variables_escrow_address \<noteq> None" if "buy_conditions c g"
    using that assms(1)
    by (auto simp: buy_conditions_def listing_inv_def split: option.splits)
  have three: "\<not> length (Gtxn c) < 3" if "buy_conditions c g"
    using that by (simp add: buy_conditions_def)
  show ?thesis
    using sold three
    by (auto simp add: buy_eval [OF assms] evaluate_def)
qed

theorem buy_atomic_witness:
  "buy_conditions buy_ctx listing_selling \<and>
   evaluate buy buy_ctx listing_selling = (Approved, after_buy buy_ctx listing_selling) \<and>
   stored (after_buy buy_ctx listing_selling) Variables_asa_owner = VBytes addr_B \<and>
   stored (after_buy buy_ctx listing_selling) Variables_app_state = Active \<and>
   \<not> buy_conditions underpaid_buy_ctx listing_selling \<and>
   evaluate buy underpaid_buy_ctx listing_selling = (Rejected, listing_selling) \<and>
   \<not> buy_conditions buy_alone_ctx listing_selling \<and>
   evaluate buy buy_alone_ctx listing_selling = (Aborted IndexOutOfRange, listing_selling) \<and>
   \<not> buy_conditions buy_ctx listing_created \<and>
   evaluate buy buy_ctx listing_created = (Aborted TypeMismatch, listing_created)"
  using buy_atomic [of listing_selling buy_ctx] buy_atomic [of listing_selling underpaid_buy_ctx]
    buy_atomic [of listing_selling buy_alone_ctx] buy_atomic [of listing_created buy_ctx]
  by (simp add: buy_conditions_def payment_valid_def asset_transfer_valid_def buy_alone_ctx_def)

text \<open>
  C2. Once the escrow address is set, on a store of the shape the application keeps
  (every reachable store has it), every initializeEscrow call returns reject and
  writes nothing, whatever its sender, group and arguments, at once and after any
  further calls of the application; the escrow address is the same after any sequence
  of calls; and a call that changes the escrow address is an approved initializeEscrow
  call on a store where it was absent.
\<close>

theorem escrow_address_set_once:
  assumes "listing_inv g" "g Variables_escrow_address \<noteq> None"
    "\<forall>c\<in>set cs. application_id (Txn c) \<noteq> 0"
  shows "initialize_escrow c g = Inr (Halt 0 g) \<and>
         evaluate initialize_escrow c g = (Rejected, g) \<and>
         run_calls g cs Variables_escrow_address = g Variables_escrow_address \<and>
         initialize_escrow c (run_calls g cs) = Inr (Halt 0 (run_calls g cs)) \<and>
         (snd (evaluate approval_program c' g') Variables_escrow_address \<noteq> g' Variables_escrow_address \<longrightarrow>
            application_id (Txn c') \<noteq> 0 \<and> application_args (Txn c') \<noteq> [] \<and>
            application_args (Txn c') ! 0 = AppMethods_initialize_escrow \<and>
            g' Variables_escrow_address = None \<and>
            evaluate approval_program c' g' = (Approved, after_initialize_escrow c' g'))"
proof -
  have rejected: "initialize_escrow c s = Inr (Halt 0 s)"
    if "listing_inv s" "s Variables_escrow_address \<noteq> None" for s
  proof -
    from that(1) obtain ad where "stored s Variables_app_admin = VBytes ad"
      by (auto simp: listing_inv_def elim!: is_bytesE)
    with that(2) show ?thesis
      by (auto simp add: initialize_escrow_def Let_def read_defs stmt_defs)
  qed
  have kept: "run_calls g cs Variables_escrow_address = g Variables_escrow_address"
    using run_calls_escrow_kept [of g cs] assms(2) by simp
  have "listing_inv (run_calls g cs)"
    using assms(1,3) by (rule run_calls_listing_inv)
  with kept assms(2) have later: "initialize_escrow c (run_calls g cs) = Inr (Halt 0 (run_calls g cs))"
    by (intro rejected) simp_all
  from rejected [OF assms(1,2)] have "evaluate initialize_escrow c g = (Rejected, g)"
    by (rule evaluate_Rejected)
  with rejected [OF assms(1,2)] kept later escrow_written [of c' g'] show ?thesis
    by blast
qed

theorem escrow_address_set_once_witness:
  "evaluate initialize_escrow init_ctx listing_active = (Rejected, listing_active) \<and>
   evaluate initialize_escrow buy_ctx listing_selling = (Rejected, listing_selling) \<and>
   run_calls listing_active [init_ctx, sell_ctx, buy_ctx, init_ctx] Variables_escrow_address
     = Some (VBytes addr_E) \<and>
   initialize_escrow init_ctx (run_calls listing_active [init_ctx, sell_ctx, buy_ctx, init_ctx])
     = Inr (Halt 0 (run_calls listing_active [init_ctx, sell_ctx, buy_ctx, init_ctx])) \<and>
   snd (evaluate approval_program init_ctx listing_created) Variables_escrow_address
     \<noteq> listing_created Variables_escrow_address \<and>
   application_args (Txn init_ctx) ! 0 = AppMethods_initialize_escrow \<and>
   listing_created Variables_escrow_address = None"
  using escrow_address_set_once [of listing_active "[init_ctx, sell_ctx, buy_ctx, init_ctx]"
      init_ctx init_ctx listing_created]
    escrow_address_set_once [of listing_selling "[]" buy_ctx init_ctx listing_created]
  by (simp add: scenario_init)

text \<open>
  C3. As stated the claim fails for buy: in the state NotInitialized the escrow address
  is absent, the comparison of the sender of record 2 with it fails, and buy aborts
  instead of returning reject.
\<close>

theorem buy_before_escrow_counterexample:
  "\<not> buy_conditions buy_ctx listing_created \<and>
   buy buy_ctx listing_created = Inl TypeMismatch \<and>
   buy buy_ctx listing_created \<noteq> Inr (Halt 0 listing_created) \<and>
   evaluate buy buy_ctx listing_created = (Aborted TypeMismatch, listing_created) \<and>
   fst (evaluate buy buy_ctx listing_created) \<noteq> Rejected"
  by (simp add: buy_eval buy_conditions_def evaluate_def)

text \<open>
  C3, amended. On a store of the shape the application keeps, a group that fails the
  conditions of initializeEscrow, of sell or of stopSelling makes that handler return
  reject with the store as it found it. A group that fails the conditions of buy is
  not approved and the store is unchanged: buy returns reject when the group has at
  least 3 records and the escrow address is set, it aborts on the read of a missing
  record when the group has fewer than 3 records, and it aborts on the comparison of
  types when the group has at least 3 records and the escrow address is absent.
\<close>

theorem failed_conditions_keep_store:
  assumes "listing_inv g" "counts_fit c"
  shows "(\<not> initialize_escrow_conditions c g \<longrightarrow>
            initialize_escrow c g = Inr (Halt 0 g) \<and>
            evaluate initialize_escrow c g = (Rejected, g)) \<and>
         (\<not> sell_conditions c g \<longrightarrow>
            sell c g = Inr (Halt 0 g) \<and> evaluate sell c g = (Rejected, g)) \<and>
         (\<not> stop_selling_conditions c g \<longrightarrow>
            stop_selling c g = Inr (Halt 0 g) \<and> evaluate stop_selling c g = (Rejected, g)) \<and>
         (\<not> buy_conditions c g \<longrightarrow>
            fst (evaluate buy c g) \<noteq> Approved \<and> snd (evaluate buy c g) = g \<and>
            (3 \<le> length (Gtxn c) \<and> g Variables_escrow_address \<noteq> None \<longrightarrow>
               buy c g = Inr (Halt 0 g) \<and> evaluate buy c g = (Rejected, g)) \<and>
            (length (Gtxn c) < 3 \<longrightarrow>
               buy c g = Inl IndexOutOfRange \<and>
               evaluate buy c g = (Aborted IndexOutOfRange, g)) \<and>
            (3 \<le> length (Gtxn c) \<and> g Variables_escrow_address = None \<longrightarrow>
               buy c g = Inl TypeMismatch \<and>
               evaluate buy c g = (Aborted TypeMismatch, g)))"
  by (auto simp add: buy_eval [OF assms] sell_eval [OF assms] stop_selling_eval [OF assms]
      initialize_escrow_eval [OF assms] evaluate_def)

theorem failed_conditions_keep_store_witness:
  "\<not> initialize_escrow_conditions init_ctx listing_active \<and>
   evaluate initialize_escrow init_ctx listing_active = (Rejected, listing_active) \<and>
   \<not> sell_conditions sell_by_B_ctx listing_active \<and>
   evaluate sell sell_by_B_ctx listing_active = (Rejected, listing_active) \<and>
   \<not> stop_selling_conditions stop_by_B_ctx listing_active \<and>
   evaluate stop_selling stop_by_B_ctx listing_active = (Rejected, listing_active) \<and>
   \<not> buy_conditions buy_ctx listing_active \<and>
   evaluate buy buy_ctx listing_active = (Rejected, listing_active) \<and>
   \<not> buy_conditions buy_alone_ctx listing_active \<and>
   buy buy_alone_ctx listing_active = Inl IndexOutOfRange \<and>
   evaluate buy buy_alone_ctx listing_active = (Aborted IndexOutOfRange, listing_active) \<and>
   \<not> buy_conditions underpaid_buy_ctx listing_created \<and>
   buy underpaid_buy_ctx listing_created = Inl TypeMismatch \<and>
   evaluate buy underpaid_buy_ctx listing_created = (Aborted TypeMismatch, listing_created)"
  using failed_conditions_keep_store [of listing_active init_ctx]
    failed_conditions_keep_store [of listing_active sell_by_B_ctx]
    failed_conditions_keep_store [of listing_active stop_by_B_ctx]
    failed_conditions_keep_store [of listing_active buy_ctx]
    failed_conditions_keep_store [of listing_active buy_alone_ctx]
    failed_conditions_keep_store [of listing_created underpaid_buy_ctx]
  by (simp add: initialize_escrow_conditions_def sell_conditions_def
      stop_selling_conditions_def buy_conditions_def)

text \<open>
  C4. As stated the claim fails: a creation call with 3 arguments whose first argument
  is longer than 8 bytes aborts in \<^verbatim>\<open>Btoi\<close>.
\<close>

theorem creation_long_asset_id_counterexample:
  "application_id (Txn create_long_id_ctx) = 0 \<and>
   length (application_args (Txn create_long_id_ctx)) = 3 \<and>
   evaluate approval_program create_long_id_ctx Map.empty = (Aborted BtoiTooLong, Map.empty) \<and>
   fst (evaluate approval_program create_long_id_ctx Map.empty) \<noteq> Approved"
  by (simp add: approval_program_def application_start_eval app_initialization_eval
      evaluate_def)

text \<open>
  C4, amended. A creation call (application id 0, on the empty store) with exactly 3
  arguments, the first of at most 8 bytes, the second and the third each of at most 119
  bytes (what the store takes under the keys of the owner and of the admin), is
  approved, and the store it leaves reads lifecycle state NotInitialized, asset id the
  big-endian value of the first argument, owner the second argument and admin the
  third, both verbatim. With 3 arguments and a first argument of more than 8 bytes it
  aborts in \<^verbatim>\<open>Btoi\<close>; with 3 arguments, a first argument of at most 8 bytes and a
  second or third argument of more than 119 bytes it aborts in \<^verbatim>\<open>App.globalPut\<close>; with
  a number of arguments other than 3 it aborts on the assertion. In no case does it
  return reject.
\<close>

theorem creation_stores_arguments:
  assumes "application_id (Txn c) = 0" "counts_fit c"
  shows "(length (application_args (Txn c)) = 3 \<and>
          length (application_args (Txn c) ! 0) \<le> 8 \<and>
          length (application_args (Txn c) ! 1) \<le> 119 \<and>
          length (application_args (Txn c) ! 2) \<le> 119 \<longrightarrow>
            evaluate approval_program c Map.empty = (Approved, after_creation c Map.empty) \<and>
            stored (after_creation c Map.empty) Variables_app_state = NotInitialized \<and>
            stored (after_creation c Map.empty) Variables_asa_id
              = VUint (be_value (application_args (Txn c) ! 0)) \<and>
            stored (after_creation c Map.empty) Variables_asa_owner
              = VBytes (application_args (Txn c) ! 1) \<and>
            stored (after_creation c Map.empty) Variables_app_admin
              = VBytes (application_args (Txn c) ! 2)) \<and>
         (length (application_args (Txn c)) = 3 \<and>
          8 < length (application_args (Txn c) ! 0) \<longrightarrow>
            evaluate approval_program c Map.empty = (Aborted BtoiTooLong, Map.empty)) \<and>
         (length (application_args (Txn c)) = 3 \<and>
          length (application_args (Txn c) ! 0) \<le> 8 \<and>
          (119 < length (application_args (Txn c) ! 1) \<or>
           119 < length (application_args (Txn c) ! 2)) \<longrightarrow>
            evaluate approval_program c Map.empty = (Aborted ValueTooLong, Map.empty)) \<and>
         (length (application_args (Txn c)) \<noteq> 3 \<longrightarrow>
            evaluate approval_program c Map.empty = (Aborted AssertFailed, Map.empty)) \<and>
         fst (evaluate approval_program c Map.empty) \<noteq> Rejected"
  using assms(1)
  by (auto simp add: approval_program_def application_start_eval
      app_initialization_eval [OF assms(2)] evaluate_def after_creation_def storable_iff)

theorem creation_stores_arguments_witness:
  "evaluate approval_program create_ctx Map.empty = (Approved, after_creation create_ctx Map.empty) \<and>
   stored (after_creation create_ctx Map.empty) Variables_app_state = NotInitialized \<and>
   stored (after_creation create_ctx Map.empty) Variables_asa_id = VUint 42 \<and>
   stored (after_creation create_ctx Map.empty) Variables_asa_owner = VBytes addr_A \<and>
   stored (after_creation create_ctx Map.empty) Variables_app_admin = VBytes addr_M \<and>
   evaluate approval_program create_long_id_ctx Map.empty = (Aborted BtoiTooLong, Map.empty) \<and>
   length (application_args (Txn create_long_owner_ctx) ! 1) = 200 \<and>
   evaluate approval_program create_long_owner_ctx Map.empty = (Aborted ValueTooLong, Map.empty) \<and>
   evaluate approval_program create_two_args_ctx Map.empty = (Aborted AssertFailed, Map.empty)"
  using creation_stores_arguments [of create_ctx]
    creation_stores_arguments [of create_long_id_ctx]
    creation_stores_arguments [of create_long_owner_ctx]
    creation_stores_arguments [of create_two_args_ctx]
  by simp

text \<open>
  C5. A sell call whose sender is not the stored owner returns reject and leaves the
  whole store, price and lifecycle state included, as it was, in each of the three
  lifecycle states.
\<close>

theorem sell_requires_owner:
  assumes "listing_inv g" "stored g Variables_asa_owner \<noteq> VBytes (bytes_of (sender (Txn c)))"
  shows "sell c g = Inr (Halt 0 g) \<and> evaluate sell c g = (Rejected, g)"
proof -
  from assms(1) obtain ow st
    where "stored g Variables_asa_owner = VBytes ow" "stored g Variables_app_state = VUint st"
    by (auto simp: listing_inv_def elim!: is_bytesE split: option.splits)
  with assms(2) have "sell c g = Inr (Halt 0 g)"
    by (simp add: sell_def Let_def read_defs stmt_defs)
  then show ?thesis
    by (simp add: evaluate_Rejected)
qed

theorem sell_requires_owner_witness:
  "evaluate sell sell_by_B_ctx listing_created = (Rejected, listing_created) \<and>
   evaluate sell sell_by_B_ctx listing_active = (Rejected, listing_active) \<and>
   evaluate sell sell_by_B_ctx listing_selling = (Rejected, listing_selling)"
  using sell_requires_owner [of listing_created sell_by_B_ctx]
    sell_requires_owner [of listing_active sell_by_B_ctx]
    sell_requires_owner [of listing_selling sell_by_B_ctx]
  by (simp add: sell_by_B_ctx_def single_def app_call_def)

text \<open>
  C6. Creation leaves the lifecycle state NotInitialized; a call of the created
  application that takes the lifecycle state away from NotInitialized is an approved
  initializeEscrow call; and from Active or SellingInProgress every sequence of calls of
  the created application ends in Active or SellingInProgress.
\<close>

theorem lifecycle_leaves_NotInitialized_for_good:
  assumes "application_id (Txn c) \<noteq> 0" "\<forall>c'\<in>set cs. application_id (Txn c') \<noteq> 0"
  shows "(application_id (Txn c0) = 0 \<and> evaluate approval_program c0 g0 = (Approved, g1) \<longrightarrow>
            stored g1 Variables_app_state = NotInitialized) \<and>
         (stored g Variables_app_state = NotInitialized \<and>
          stored (snd (evaluate approval_program c g)) Variables_app_state \<noteq> NotInitialized \<longrightarrow>
            application_args (Txn c) \<noteq> [] \<and>
            application_args (Txn c) ! 0 = AppMethods_initialize_escrow \<and>
            evaluate approval_program c g = (Approved, after_initialize_escrow c g)) \<and>
         (stored g' Variables_app_state = Active \<or>
          stored g' Variables_app_state = SellingInProgress \<longrightarrow>
            stored (run_calls g' cs) Variables_app_state = Active \<or>
            stored (run_calls g' cs) Variables_app_state = SellingInProgress)"
proof (intro conjI impI)
  assume "application_id (Txn c0) = 0 \<and> evaluate approval_program c0 g0 = (Approved, g1)"
  then show "stored g1 Variables_app_state = NotInitialized"
    using creation_cases [of c0 g0] by (auto simp: after_creation_def)
next
  assume a: "stored g Variables_app_state = NotInitialized \<and>
    stored (snd (evaluate approval_program c g)) Variables_app_state \<noteq> NotInitialized"
  with call_leaves_NotInitialized [OF assms(1), of g]
  show "application_args (Txn c) \<noteq> []"
    "application_args (Txn c) ! 0 = AppMethods_initialize_escrow"
    "evaluate approval_program c g = (Approved, after_initialize_escrow c g)"
    by simp_all
next
  assume "stored g' Variables_app_state = Active \<or>
    stored g' Variables_app_state = SellingInProgress"
  with assms(2) show "stored (run_calls g' cs) Variables_app_state = Active \<or>
    stored (run_calls g' cs) Variables_app_state = SellingInProgress"
    by (rule run_calls_stay_initialized)
qed

theorem lifecycle_leaves_NotInitialized_for_good_witness:
  "evaluate approval_program create_ctx Map.empty = (Approved, listing_created) \<and>
   stored listing_created Variables_app_state = NotInitialized \<and>
   stored (snd (evaluate approval_program init_ctx listing_created)) Variables_app_state
     \<noteq> NotInitialized \<and>
   application_args (Txn init_ctx) ! 0 = AppMethods_initialize_escrow \<and>
   (stored (run_calls listing_active [sell_ctx, buy_ctx, stop_by_B_ctx, init_ctx])
      Variables_app_state = Active \<or>
    stored (run_calls listing_active [sell_ctx, buy_ctx, stop_by_B_ctx, init_ctx])
      Variables_app_state = SellingInProgress)"
  using lifecycle_leaves_NotInitialized_for_good [of init_ctx
      "[sell_ctx, buy_ctx, stop_by_B_ctx, init_ctx]" create_ctx Map.empty listing_created
      listing_created listing_active]
  by (simp add: scenario_create scenario_init)

text \<open>
  C7. In the state Active, a stopSelling call in a group of one record whose sender is
  the stored owner returns 1 and leaves the store equal to the one it found; so after
  any number of such calls the store is the same and the next call is approved again.
\<close>

theorem stop_selling_idempotent:
  assumes "stored g Variables_app_state = Active" "length (Gtxn c) = 1"
    "stored g Variables_asa_owner = VBytes (bytes_of (sender (Txn c)))"
  shows "stop_selling c g = Inr (Halt 1 g) \<and>
         evaluate stop_selling c g = (Approved, g) \<and>
         ((\<lambda>s. snd (evaluate stop_selling c s)) ^^ n) g = g \<and>
         fst (evaluate stop_selling c (((\<lambda>s. snd (evaluate stop_selling c s)) ^^ n) g)) = Approved \<and>
         (application_id (Txn c) \<noteq> 0 \<and> application_args (Txn c) \<noteq> [] \<and>
          application_args (Txn c) ! 0 = AppMethods_stop_selling \<longrightarrow>
            evaluate approval_program c g = (Approved, g))"
proof -
  from assms(1) have "g Variables_app_state = Some Active"
    by (rule stored_Some) simp
  then have same: "g(Variables_app_state \<mapsto> Active) = g"
    by (rule map_upd_triv)
  from assms have r: "stop_selling c g = Inr (Halt 1 g)"
    by (simp add: stop_selling_def Let_def read_defs stmt_defs same)
  then have e: "evaluate stop_selling c g = (Approved, g)"
    by (rule evaluate_Approved)
  then have "((\<lambda>s. snd (evaluate stop_selling c s)) ^^ n) g = g"
    by (induction n) simp_all
  with r e show ?thesis
    by (simp add: approval_program_def application_start_eval evaluate_def)
qed

theorem stop_selling_idempotent_witness:
  "evaluate stop_selling stop_ctx listing_active = (Approved, listing_active) \<and>
   ((\<lambda>s. snd (evaluate stop_selling stop_ctx s)) ^^ 3) listing_active = listing_active \<and>
   fst (evaluate stop_selling stop_ctx
          (((\<lambda>s. snd (evaluate stop_selling stop_ctx s)) ^^ 3) listing_active)) = Approved \<and>
   evaluate approval_program stop_ctx listing_active = (Approved, listing_active)"
  using stop_selling_idempotent [of listing_active stop_ctx 3]
  by simp

text \<open>
  C8. An approved buy and an approved stopSelling leave the stored price as it was; so
  does every call that takes the lifecycle state out of SellingInProgress; and a call
  after which the stored price differs is an approved sell call.
\<close>

theorem asset_price_written_by_sell_only:
  "(evaluate buy c g = (Approved, g') \<longrightarrow>
      g' = after_buy c g \<and> g' Variables_asa_price = g Variables_asa_price) \<and>
   (evaluate stop_selling c g = (Approved, g') \<longrightarrow>
      g' = g(Variables_app_state \<mapsto> Active) \<and> g' Variables_asa_price = g Variables_asa_price) \<and>
   (stored g Variables_app_state = SellingInProgress \<and>
    stored (snd (evaluate approval_program c g)) Variables_app_state \<noteq> SellingInProgress \<longrightarrow>
      snd (evaluate approval_program c g) Variables_asa_price = g Variables_asa_price) \<and>
   (snd (evaluate approval_program c g) Variables_asa_price \<noteq> g Variables_asa_price \<longrightarrow>
      application_id (Txn c) \<noteq> 0 \<and> application_args (Txn c) \<noteq> [] \<and>
      application_args (Txn c) ! 0 = AppMethods_sell \<and>
      evaluate approval_program c g = (Approved, after_sell c g))"
proof (intro conjI impI)
  assume a: "evaluate buy c g = (Approved, g')"
  then show "g' = after_buy c g"
  proof (cases rule: evaluate_cases)
    case (written n)
    with buy_halts [of c g "Halt n g'"] show ?thesis by simp
  qed simp
  then show "g' Variables_asa_price = g Variables_asa_price"
    by (simp add: after_buy_def)
next
  assume a: "evaluate stop_selling c g = (Approved, g')"
  then show "g' = g(Variables_app_state \<mapsto> Active)"
  proof (cases rule: evaluate_cases)
    case (written n)
    with stop_selling_halts [of c g "Halt n g'"] show ?thesis by simp
  qed simp
  then show "g' Variables_asa_price = g Variables_asa_price"
    by simp
next
  assume a: "stored g Variables_app_state = SellingInProgress \<and>
    stored (snd (evaluate approval_program c g)) Variables_app_state \<noteq> SellingInProgress"
  show "snd (evaluate approval_program c g) Variables_asa_price = g Variables_asa_price"
  proof (rule ccontr)
    assume "snd (evaluate approval_program c g) Variables_asa_price \<noteq> g Variables_asa_price"
    then have "evaluate approval_program c g = (Approved, after_sell c g)"
      using price_written [of c g] by simp
    with a show False by (simp add: after_sell_def)
  qed
next
  assume "snd (evaluate approval_program c g) Variables_asa_price \<noteq> g Variables_asa_price"
  then show "application_id (Txn c) \<noteq> 0" "application_args (Txn c) \<noteq> []"
    "application_args (Txn c) ! 0 = AppMethods_sell"
    "evaluate approval_program c g = (Approved, after_sell c g)"
    using price_written [of c g] by simp_all
qed

theorem asset_price_written_by_sell_only_witness:
  "evaluate buy buy_ctx listing_selling = (Approved, after_buy buy_ctx listing_selling) \<and>
   after_buy buy_ctx listing_selling Variables_asa_price = Some (VUint 100) \<and>
   evaluate stop_selling stop_ctx listing_selling =
     (Approved, listing_selling(Variables_app_state \<mapsto> Active)) \<and>
   (listing_selling(Variables_app_state \<mapsto> Active)) Variables_asa_price = Some (VUint 100) \<and>
   stored (snd (evaluate approval_program stop_ctx listing_selling)) Variables_app_state
     \<noteq> SellingInProgress \<and>
   snd (evaluate approval_program stop_ctx listing_selling) Variables_asa_price = Some (VUint 100) \<and>
   snd (evaluate approval_program sell_ctx listing_active) Variables_asa_price
     \<noteq> listing_active Variables_asa_price \<and>
   application_args (Txn sell_ctx) ! 0 = AppMethods_sell"
  using asset_price_written_by_sell_only [of buy_ctx listing_selling
      "after_buy buy_ctx listing_selling"]
    asset_price_written_by_sell_only [of stop_ctx listing_selling
      "listing_selling(Variables_app_state \<mapsto> Active)"]
    asset_price_written_by_sell_only [of sell_ctx listing_active]
  by (simp add: scenario_buy_handler scenario_stop_handler scenario_stop scenario_sell)

text \<open>
  C9. For a group of 3 records in the state SellingInProgress, buy gives the same
  result when the call being evaluated is any record and record 0 is replaced by any
  record with the same sender: buy reads nothing else of record 0, neither its type nor
  whether it is the call being evaluated. When the conditions on records 1 and 2 hold,
  buy is approved and the new owner is the sender of record 0.
\<close>

theorem buy_reads_sender_of_record_0_only:
  assumes "length (Gtxn c) = 3" "stored g Variables_app_state = SellingInProgress"
  shows "buy \<lparr>Txn = t, Gtxn = (Gtxn c)[0 := r\<lparr>sender := sender (Gtxn c ! 0)\<rparr>]\<rparr> g = buy c g \<and>
         (payment_valid c g \<and> asset_transfer_valid c g \<longrightarrow>
            buy c g = Inr (Halt 1 (after_buy c g)) \<and>
            evaluate buy c g = (Approved, after_buy c g) \<and>
            stored (after_buy c g) Variables_asa_owner = VBytes (bytes_of (sender (Gtxn c ! 0))))"
proof -
  have same: "buy \<lparr>Txn = t, Gtxn = (Gtxn c)[0 := r\<lparr>sender := sender (Gtxn c ! 0)\<rparr>]\<rparr> g = buy c g"
    using assms
    by (cases "stored g Variables_asa_owner"; cases "stored g Variables_asa_id";
        cases "stored g Variables_asa_price"; cases "stored g Variables_escrow_address")
      (simp_all add: buy_def Let_def read_defs stmt_defs)
  have "buy c g = Inr (Halt 1 (after_buy c g))"
    if "payment_valid c g" "asset_transfer_valid c g"
    using that assms
    by (auto simp add: buy_def Let_def read_defs stmt_defs payment_valid_def
        asset_transfer_valid_def after_buy_def)
  with same show ?thesis
    by (simp add: evaluate_def)
qed

theorem buy_reads_sender_of_record_0_only_witness:
  "buy buy_extra_arg_ctx listing_selling = buy buy_ctx listing_selling \<and>
   Gtxn buy_extra_arg_ctx ! 0 \<noteq> Gtxn buy_ctx ! 0 \<and>
   evaluate buy buy_extra_arg_ctx listing_selling
     = (Approved, after_buy buy_extra_arg_ctx listing_selling) \<and>
   stored (after_buy buy_extra_arg_ctx listing_selling) Variables_asa_owner = VBytes addr_B"
proof -
  have "\<lparr>Txn = app_call acct_B 7 [AppMethods_buy, arg_42],
         Gtxn = (Gtxn buy_ctx)[0 := (app_call acct_B 7 [AppMethods_buy, arg_42])
                                      \<lparr>sender := sender (Gtxn buy_ctx ! 0)\<rparr>]\<rparr>
        = buy_extra_arg_ctx"
    by (simp add: buy_extra_arg_ctx_def app_call_def)
  moreover have "Gtxn buy_extra_arg_ctx ! 0 \<noteq> Gtxn buy_ctx ! 0"
    by (simp add: app_call_def)
  ultimately show ?thesis
    using buy_reads_sender_of_record_0_only [of buy_ctx listing_selling
        "app_call acct_B 7 [AppMethods_buy, arg_42]" "app_call acct_B 7 [AppMethods_buy, arg_42]"]
      buy_reads_sender_of_record_0_only [of buy_extra_arg_ctx listing_selling
        "app_call acct_B 7 [AppMethods_buy, arg_42]" "app_call acct_B 7 [AppMethods_buy, arg_42]"]
    by (simp add: payment_valid_def asset_transfer_valid_def)
qed

text \<open>
  C10. An initializeEscrow call in a group of one record, sent by the stored admin
  while the escrow address is absent, with fewer than 2 arguments, fails on reading
  argument 1: the evaluation aborts and returns nothing. No number of arguments is
  among the conditions: on a store of the shape the application keeps, a call that
  fails one of them returns reject whatever arguments it carries, and one that meets
  them with 2 arguments or more, the second one of a size the store takes, is approved.
\<close>

theorem initialize_escrow_missing_argument_aborts:
  assumes "length (Gtxn c) = 1" "stored g Variables_app_admin = VBytes (bytes_of (sender (Txn c)))"
    "g Variables_escrow_address = None" "length (application_args (Txn c)) < 2"
  shows "initialize_escrow c g = Inl IndexOutOfRange \<and>
         evaluate initialize_escrow c g = (Aborted IndexOutOfRange, g) \<and>
         (listing_inv g' \<and> counts_fit c' \<and> \<not> initialize_escrow_conditions c' g' \<longrightarrow>
            initialize_escrow c' g' = Inr (Halt 0 g')) \<and>
         (listing_inv g' \<and> counts_fit c' \<and> initialize_escrow_conditions c' g' \<and>
          2 \<le> length (application_args (Txn c')) \<and>
          storable Variables_escrow_address (application_args (Txn c') ! 1) \<longrightarrow>
            initialize_escrow c' g' = Inr (Halt 1 (after_initialize_escrow c' g')))"
proof -
  from assms have "initialize_escrow c g = Inl IndexOutOfRange"
    by (simp add: initialize_escrow_def Let_def read_defs stmt_defs)
  then show ?thesis
    by (auto simp add: evaluate_def initialize_escrow_eval)
qed

theorem initialize_escrow_missing_argument_aborts_witness:
  "length (application_args (Txn init_no_arg_ctx)) = 1 \<and>
   initialize_escrow init_no_arg_ctx listing_created = Inl IndexOutOfRange \<and>
   evaluate initialize_escrow init_no_arg_ctx listing_created
     = (Aborted IndexOutOfRange, listing_created) \<and>
   \<not> initialize_escrow_conditions init_no_arg_ctx listing_active \<and>
   initialize_escrow init_no_arg_ctx listing_active = Inr (Halt 0 listing_active) \<and>
   initialize_escrow_conditions init_ctx listing_created \<and>
   initialize_escrow init_ctx listing_created
     = Inr (Halt 1 (after_initialize_escrow init_ctx listing_created))"
  using initialize_escrow_missing_argument_aborts [of init_no_arg_ctx listing_created
      listing_active init_no_arg_ctx]
    initialize_escrow_missing_argument_aborts [of init_no_arg_ctx listing_created
      listing_created init_ctx]
  by (simp add: initialize_escrow_conditions_def)

end
